theory Spec2Isabelle
  imports Complex_Main
begin

section \<open>JavaScript values\<close>

text \<open>
  The controller of \<^verbatim>\<open>src/api/controllers/orderControllers.js\<close> works on request bodies,
  which are JavaScript values. A number is a double: its finite values are rationals, so
  \<open>Fin\<close> ranges over a superset of them (what is proved for every rational holds for
  every finite double; concrete inputs below are doubles). \<open>Fin 0\<close> stands for both
  zeros, which the operations used here do not tell apart.
\<close>

datatype jsnum = Fin rat | PosInf | NegInf | NaN

text \<open>
  \<open>JUndefined\<close> is what reading a missing property gives. An object is the list of its
  own properties; a lookup takes the first entry of a name.
\<close>

datatype json =
    JUndefined
  | JNull
  | JBool bool
  | JNum jsnum
  | JStr string
  | JArr "json list"
  | JObj "(string \<times> json) list"

text \<open>Exceptions, by constructor: \<open>ApiError\<close> is the payment SDK's class.\<close>

datatype js_error =
    Error string
  | ApiError string
  | TypeError string
  | SyntaxError string

fun message :: "js_error \<Rightarrow> string" where
  "message (Error m) = m"
| "message (ApiError m) = m"
| "message (TypeError m) = m"
| "message (SyntaxError m) = m"

text \<open>Sequencing of steps that may throw: the first exception ends the block.\<close>

definition bindE :: "'e + 'a \<Rightarrow> ('a \<Rightarrow> 'e + 'b) \<Rightarrow> 'e + 'b" where
  "bindE x f = (case x of Inl e \<Rightarrow> Inl e | Inr v \<Rightarrow> f v)"

fun mapE :: "('a \<Rightarrow> 'e + 'b) \<Rightarrow> 'a list \<Rightarrow> 'e + 'b list" where
  "mapE f [] = Inr []"
| "mapE f (x # xs) = bindE (f x) (\<lambda>y. bindE (mapE f xs) (\<lambda>ys. Inr (y # ys)))"

text \<open>\<open>!v\<close> is \<open>\<not> truthy v\<close>.\<close>

fun truthy :: "json \<Rightarrow> bool" where
  "truthy JUndefined = False"
| "truthy JNull = False"
| "truthy (JBool b) = b"
| "truthy (JNum n) = (n \<noteq> Fin 0 \<and> n \<noteq> NaN)"
| "truthy (JStr s) = (s \<noteq> [])"
| "truthy (JArr xs) = True"
| "truthy (JObj kvs) = True"

text \<open>
  \<open>v.k\<close> for the property names this program reads (none of them is an array index or
  a name that a prototype defines): an own property of an object, the length of an array
  or a string, and \<open>undefined\<close> otherwise. On \<open>null\<close> and \<open>undefined\<close> the read throws;
  the messages of the exceptions of the language are worded as V8 words them.
\<close>

fun get_prop :: "json \<Rightarrow> string \<Rightarrow> json" where
  "get_prop (JObj kvs) k = (case map_of kvs k of Some v \<Rightarrow> v | None \<Rightarrow> JUndefined)"
| "get_prop (JArr xs) k = (if k = ''length'' then JNum (Fin (of_nat (length xs))) else JUndefined)"
| "get_prop (JStr s) k = (if k = ''length'' then JNum (Fin (of_nat (length s))) else JUndefined)"
| "get_prop v k = JUndefined"

definition cannot_read :: "string \<Rightarrow> string \<Rightarrow> js_error" where
  "cannot_read what k =
     TypeError (''Cannot read properties of '' @ what @ '' (reading ''
                @ [CHR 0x27] @ k @ [CHR 0x27] @ '')'')"

fun read_prop :: "json \<Rightarrow> string \<Rightarrow> js_error + json" where
  "read_prop JUndefined k = Inl (cannot_read ''undefined'' k)"
| "read_prop JNull k = Inl (cannot_read ''null'' k)"
| "read_prop v k = Inr (get_prop v k)"

text \<open>\<open>const { k } = v\<close>, where \<open>expr\<close> is the source text of \<open>v\<close>.\<close>

definition cannot_destructure :: "string \<Rightarrow> string \<Rightarrow> string \<Rightarrow> js_error" where
  "cannot_destructure k expr what =
     TypeError (''Cannot destructure property '' @ [CHR 0x27] @ k @ [CHR 0x27] @ '' of ''
                @ [CHR 0x27] @ expr @ [CHR 0x27] @ '' as it is '' @ what @ ''.'')"

fun destructure :: "string \<Rightarrow> json \<Rightarrow> string \<Rightarrow> js_error + json" where
  "destructure expr JUndefined k = Inl (cannot_destructure k expr ''undefined'')"
| "destructure expr JNull k = Inl (cannot_destructure k expr ''null'')"
| "destructure expr v k = Inr (get_prop v k)"

definition isArray :: "json \<Rightarrow> bool" where
  "isArray v = (case v of JArr xs \<Rightarrow> True | _ \<Rightarrow> False)"

subsection \<open>Comparison with zero\<close>

fun num_le_zero :: "jsnum \<Rightarrow> bool" where
  "num_le_zero (Fin q) = (q \<le> 0)"
| "num_le_zero NegInf = True"
| "num_le_zero PosInf = False"
| "num_le_zero NaN = False"

subsection \<open>\<open>Number.prototype.toFixed(2)\<close>\<close>

text \<open>The decimal digit \<open>d < 10\<close>, and the digits of a natural number.\<close>

definition digit_char :: "nat \<Rightarrow> char" where
  "digit_char d = ''0123456789'' ! d"

fun dec :: "nat \<Rightarrow> string" where
  "dec n = (if n < 10 then [digit_char n] else dec (n div 10) @ [digit_char (n mod 10)])"

declare dec.simps [simp del]

text \<open>
  For \<open>0 \<le> x < 10^21\<close>: the integer \<open>n\<close> nearest to \<open>100 x\<close> (the larger of two),
  its decimal digits padded with zeros to three at least, and a point before the last two.
\<close>

definition fixed2 :: "rat \<Rightarrow> string" where
  "fixed2 x =
     (let n = nat \<lfloor>x * 100 + 1 / 2\<rfloor>;
          m = dec n;
          m' = (if length m \<le> 2 then replicate (3 - length m) (CHR ''0'') @ m else m);
          k = length m'
      in take (k - 2) m' @ ''.'' @ drop (k - 2) m')"

text \<open>
  The text of a number. From a magnitude of \<open>10^21\<close> on, \<open>toFixed\<close> gives what
  \<open>Number.prototype.toString\<close> gives, which is in exponent notation there
  (\<open>1e+21\<close>); its digits depend on the neighbouring doubles and are not modelled:
  \<open>ExponentText q\<close> stands for that text.
\<close>

datatype numtext = Text string | ExponentText rat

fun toFixed2 :: "jsnum \<Rightarrow> numtext" where
  "toFixed2 (Fin q) =
     (if 10 ^ 21 \<le> \<bar>q\<bar> then ExponentText q
      else Text ((if q < 0 then ''-'' else []) @ fixed2 \<bar>q\<bar>))"
| "toFixed2 PosInf = Text ''Infinity''"
| "toFixed2 NegInf = Text ''-Infinity''"
| "toFixed2 NaN = Text ''NaN''"

text \<open>\<open>v.toFixed(2)\<close>, where \<open>expr\<close> is the source text of \<open>v\<close>: only numbers have the method.\<close>

fun call_toFixed :: "string \<Rightarrow> json \<Rightarrow> js_error + numtext" where
  "call_toFixed expr JUndefined = Inl (cannot_read ''undefined'' ''toFixed'')"
| "call_toFixed expr JNull = Inl (cannot_read ''null'' ''toFixed'')"
| "call_toFixed expr (JNum n) = Inr (toFixed2 n)"
| "call_toFixed expr v = Inl (TypeError (expr @ ''.toFixed is not a function''))"

text \<open>A text with exactly two decimal places: an optional sign, digits, a point, two digits.\<close>

definition is_digit :: "char \<Rightarrow> bool" where
  "is_digit c = (c \<in> set ''0123456789'')"

definition unsigned_two_decimals :: "string \<Rightarrow> bool" where
  "unsigned_two_decimals s =
     (case rev s of
        b # a # p # ip \<Rightarrow> is_digit b \<and> is_digit a \<and> p = CHR ''.'' \<and> ip \<noteq> [] \<and> list_all is_digit ip
      | _ \<Rightarrow> False)"

fun two_decimals :: "numtext \<Rightarrow> bool" where
  "two_decimals (Text s) =
     (case s of c # t \<Rightarrow> if c = CHR ''-'' then unsigned_two_decimals t else unsigned_two_decimals s
      | [] \<Rightarrow> False)"
| "two_decimals (ExponentText q) = False"

section \<open>Collaborators\<close>

subsection \<open>The payment authority\<close>

text \<open>
  The request of \<open>ordersCreate\<close>. \<open>amount_value\<close> and \<open>unit_value\<close> are the two
  \<open>value\<close> fields, \<open>create_prefer\<close> and \<open>capture_prefer\<close> the two \<open>prefer\<close> fields.
\<close>

record amount =
  currencyCode :: string
  amount_value :: numtext

record unit_amount =
  currency_code :: string
  unit_value :: numtext

record item =
  name :: json
  quantity :: json
  unit_amount :: unit_amount

record purchase_unit =
  amount :: amount
  items :: "item list"

record order_request =
  intent :: string
  purchaseUnits :: "purchase_unit list"

record create_collect =
  collect_body :: order_request
  create_prefer :: string

record capture_collect =
  capture_id :: json
  capture_prefer :: string

text \<open>
  A response body is a text: \<open>JsonText v\<close> is one that \<open>JSON.parse\<close> reads as \<open>v\<close>,
  \<open>Unparsable m\<close> one that it rejects with a \<open>SyntaxError\<close> of message \<open>m\<close>.
\<close>

datatype body_text = JsonText json | Unparsable string

fun JSON_parse :: "body_text \<Rightarrow> js_error + json" where
  "JSON_parse (JsonText v) = Inr v"
| "JSON_parse (Unparsable m) = Inl (SyntaxError m)"

record api_response =
  response_body :: body_text
  statusCode :: nat

subsection \<open>The order store\<close>

text \<open>\<open>Stringify v\<close> is the text \<open>JSON.stringify(v)\<close>.\<close>

datatype json_text = Stringify json

text \<open>
  Modelled from the spec: the table behind \<^verbatim>\<open>../config/dbconfig\<close>, which is not part of
  the sources. A record has the columns of the \<open>INSERT\<close> statement, holding the values bound
  to its placeholders, and an identifier assigned by the store on creation.
\<close>

record order_values =
  email :: json
  username :: json
  ville :: json
  quartier :: json
  phoneNumber :: json
  paymentMethod :: json
  totalAmount :: json
  order_status :: json
  cartItems :: json_text

type_synonym order_row = "nat \<times> order_values"

datatype sql =
    InsertOrder order_values
  | SelectAll
  | SelectById json
  | UpdateStatus json json
  | DeleteById json

text \<open>
  How a query ends: with a result, with an error handed to the callback, or with an
  exception thrown by \<open>db.query\<close> itself.
\<close>

datatype db_fault = NoFault | QueryError string | QueryThrows js_error

subsection \<open>The mailer\<close>

text \<open>
  The summary handed to \<open>SendOrderNotification\<close>. \<open>productName\<close> holds the names that the
  source joins with \<open>', '\<close>, and \<open>lieu\<close> the two values it interpolates as
  \<open>quartier, ville\<close>; their conversion to text is the mailer's concern here.
\<close>

record orderDetails =
  clientName :: json
  productName :: "json list"
  detail_totalAmount :: json
  lieu :: "json \<times> json"
  detail_phoneNumber :: json

subsection \<open>Environment and world\<close>

text \<open>
  What the program cannot decide is a parameter:
  \<^item> \<open>ToNumber_text\<close>: the number that the language reads from a non-empty string, an array
    or an object when it compares it with a number (or the exception of that conversion);
  \<^item> \<open>ordersCreate\<close>, \<open>ordersCapture\<close>: the answer of the payment authority, or the
    exception of the call (an \<open>ApiError\<close>, a timeout, a transport error);
  \<^item> \<open>query_fault\<close>: whether a query fails;
  \<^item> \<open>id_eq\<close>: whether the store takes a request's id for the identifier of a record;
  \<^item> \<open>SendOrderNotification\<close>: the exception of the mailer, if it fails.
\<close>

record env =
  ToNumber_text :: "json \<Rightarrow> js_error + jsnum"
  ordersCreate :: "create_collect \<Rightarrow> js_error + api_response"
  ordersCapture :: "capture_collect \<Rightarrow> js_error + api_response"
  query_fault :: "sql \<Rightarrow> db_fault"
  id_eq :: "nat \<Rightarrow> json \<Rightarrow> bool"
  SendOrderNotification :: "orderDetails \<Rightarrow> js_error option"

datatype call =
    OrdersCreate create_collect
  | OrdersCapture capture_collect
  | Query sql
  | Mail orderDetails

text \<open>
  The world outside the process: the table, its counter, and the calls issued so far to
  the collaborators, oldest first.
\<close>

record world =
  orders :: "order_row list"
  auto_increment :: nat
  calls :: "call list"

definition issue :: "call \<Rightarrow> world \<Rightarrow> world" where
  "issue c w = w\<lparr>calls := calls w @ [c]\<rparr>"

text \<open>
  Modelled from the spec: \<open>create\<close> of the store, which adds one record under the next
  identifier and returns it (\<open>insertId\<close>).
\<close>

definition db_insert :: "order_values \<Rightarrow> world \<Rightarrow> nat \<times> world" where
  "db_insert v w =
     (auto_increment w,
      w\<lparr>orders := orders w @ [(auto_increment w, v)], auto_increment := Suc (auto_increment w)\<rparr>)"

text \<open>Modelled from the spec: the records that a \<open>WHERE id = ?\<close> selects.\<close>

definition db_select :: "env \<Rightarrow> json \<Rightarrow> world \<Rightarrow> order_row list" where
  "db_select env i w = filter (\<lambda>r. id_eq env (fst r) i) (orders w)"

text \<open>
  Modelled from the spec: \<open>updateStatus\<close> of the store, which overwrites the status of the
  selected records and returns their count (\<open>affectedRows\<close>).
\<close>

definition db_update :: "env \<Rightarrow> json \<Rightarrow> json \<Rightarrow> world \<Rightarrow> nat \<times> world" where
  "db_update env st i w =
     (length (db_select env i w),
      w\<lparr>orders := map (\<lambda>r. if id_eq env (fst r) i then (fst r, (snd r)\<lparr>order_status := st\<rparr>) else r)
                      (orders w)\<rparr>)"

text \<open>
  Modelled from the spec: \<open>delete\<close> of the store, which removes the selected records and
  returns their count (\<open>affectedRows\<close>).
\<close>

definition db_delete :: "env \<Rightarrow> json \<Rightarrow> world \<Rightarrow> nat \<times> world" where
  "db_delete env i w =
     (length (db_select env i w),
      w\<lparr>orders := filter (\<lambda>r. \<not> id_eq env (fst r) i) (orders w)\<rparr>)"

section \<open>The gateway flow\<close>

subsection \<open>\<open>validateCartData\<close>\<close>

text \<open>\<open>ToNumber\<close>, as \<open>v <= 0\<close> applies it to \<open>v\<close>.\<close>

fun to_number :: "env \<Rightarrow> json \<Rightarrow> js_error + jsnum" where
  "to_number env JUndefined = Inr NaN"
| "to_number env JNull = Inr (Fin 0)"
| "to_number env (JBool b) = Inr (Fin (if b then 1 else 0))"
| "to_number env (JNum n) = Inr n"
| "to_number env (JStr s) = (if s = [] then Inr (Fin 0) else ToNumber_text env (JStr s))"
| "to_number env v = ToNumber_text env v"

definition le_zero :: "env \<Rightarrow> json \<Rightarrow> js_error + bool" where
  "le_zero env v = bindE (to_number env v) (\<lambda>n. Inr (num_le_zero n))"

definition invalid_total :: js_error where
  "invalid_total = Error ''Invalid cart: Total amount must be greater than zero''"

definition no_items :: js_error where
  "no_items = Error ''Invalid cart: No items found''"

definition validateCartData :: "env \<Rightarrow> json \<Rightarrow> js_error + unit" where
  "validateCartData env cart =
     (if \<not> truthy cart then Inl invalid_total
      else bindE (read_prop cart ''total'') (\<lambda>total.
        if \<not> truthy total then Inl invalid_total
        else bindE (le_zero env total) (\<lambda>le.
          if le then Inl invalid_total
          else bindE (read_prop cart ''items'') (\<lambda>its.
            case its of
              JArr xs \<Rightarrow> if length xs = 0 then Inl no_items else Inr ()
            | _ \<Rightarrow> Inl no_items))))"

subsection \<open>\<open>createOrder\<close>\<close>

definition item_entry :: "json \<Rightarrow> js_error + item" where
  "item_entry it =
     bindE (read_prop it ''productName'') (\<lambda>n.
     bindE (read_prop it ''quantity'') (\<lambda>q.
     bindE (read_prop it ''price'') (\<lambda>p.
     bindE (call_toFixed ''item.price'' p) (\<lambda>v.
       Inr \<lparr>name = n, quantity = q,
            unit_amount = \<lparr>currency_code = ''USD'', unit_value = v\<rparr>\<rparr>))))"

text \<open>\<open>xs.map(f)\<close>, where \<open>expr\<close> is the source text of \<open>xs\<close>.\<close>

fun array_map :: "string \<Rightarrow> (json \<Rightarrow> js_error + 'b) \<Rightarrow> json \<Rightarrow> js_error + 'b list" where
  "array_map expr f (JArr xs) = mapE f xs"
| "array_map expr f JUndefined = Inl (cannot_read ''undefined'' ''map'')"
| "array_map expr f JNull = Inl (cannot_read ''null'' ''map'')"
| "array_map expr f v = Inl (TypeError (expr @ ''.map is not a function''))"

text \<open>The object \<open>collect\<close>, built in the order of the source: the total first, then each item.\<close>

definition build_collect :: "json \<Rightarrow> js_error + create_collect" where
  "build_collect cart =
     bindE (read_prop cart ''total'') (\<lambda>total.
     bindE (call_toFixed ''cart.total'' total) (\<lambda>v.
     bindE (read_prop cart ''items'') (\<lambda>its.
     bindE (array_map ''cart.items'' item_entry its) (\<lambda>entries.
       Inr \<lparr>collect_body =
              \<lparr>intent = ''CAPTURE'',
               purchaseUnits =
                 [\<lparr>amount = \<lparr>currencyCode = ''USD'', amount_value = v\<rparr>, items = entries\<rparr>]\<rparr>,
            create_prefer = ''return=minimal''\<rparr>))))"

record gateway_result =
  jsonResponse :: json
  httpStatusCode :: nat

text \<open>The \<open>catch\<close> block of \<open>createOrder\<close>: what it throws for the exception it caught.\<close>

definition create_rethrow :: "js_error \<Rightarrow> js_error" where
  "create_rethrow e = (case e of ApiError m \<Rightarrow> Error (''PayPal API Error: '' @ m) | _ \<Rightarrow> e)"

definition createOrder :: "env \<Rightarrow> json \<Rightarrow> world \<Rightarrow> (js_error + gateway_result) \<times> world" where
  "createOrder env cart w =
     (case validateCartData env cart of
        Inl e \<Rightarrow> (Inl (create_rethrow e), w)
      | Inr u \<Rightarrow>
          (case build_collect cart of
             Inl e \<Rightarrow> (Inl (create_rethrow e), w)
           | Inr collect \<Rightarrow>
               (let w' = issue (OrdersCreate collect) w in
                case ordersCreate env collect of
                  Inl e \<Rightarrow> (Inl (create_rethrow e), w')
                | Inr r \<Rightarrow>
                    (case JSON_parse (response_body r) of
                       Inl e \<Rightarrow> (Inl (create_rethrow e), w')
                     | Inr j \<Rightarrow> (Inr \<lparr>jsonResponse = j, httpStatusCode = statusCode r\<rparr>, w')))))"

section \<open>Requests and replies\<close>

record req =
  params :: json
  body :: json

text \<open>
  What a handler sends: \<open>Reply status payload\<close>. \<open>Listing m rows\<close> is the object with
  \<open>message\<close> \<open>m\<close> and \<open>data\<close> \<open>rows\<close>, \<open>Row r\<close> a record of the table as an object.
  \<open>Uncaught e\<close>: the handler threw outside its \<open>try\<close> blocks and sent nothing.
\<close>

datatype payload = Json json | Listing string "order_row list" | Row order_row

datatype reply = Reply nat payload | Uncaught js_error

definition error_reply :: "nat \<Rightarrow> string \<Rightarrow> reply" where
  "error_reply st e = Reply st (Json (JObj [(''error'', JStr e)]))"

definition error_details :: "nat \<Rightarrow> string \<Rightarrow> string \<Rightarrow> reply" where
  "error_details st e d = Reply st (Json (JObj [(''error'', JStr e), (''details'', JStr d)]))"

subsection \<open>\<open>POST /api/orders\<close>\<close>

definition post_orders :: "env \<Rightarrow> req \<Rightarrow> world \<Rightarrow> reply \<times> world" where
  "post_orders env rq w =
     (case destructure ''req.body'' (body rq) ''cart'' of
        Inl e \<Rightarrow> (error_details 500 ''Failed to create order'' (message e), w)
      | Inr cart \<Rightarrow>
          if \<not> truthy cart then (error_reply 400 ''Cart data is required'', w)
          else
            (case createOrder env cart w of
               (Inr r, w') \<Rightarrow> (Reply (httpStatusCode r) (Json (jsonResponse r)), w')
             | (Inl e, w') \<Rightarrow> (error_details 500 ''Failed to create order'' (message e), w')))"

subsection \<open>\<open>captureOrder\<close> and \<open>POST /api/orders/:orderID/capture\<close>\<close>

definition capture_rethrow :: "js_error \<Rightarrow> js_error" where
  "capture_rethrow e =
     (case e of ApiError m \<Rightarrow> Error (''PayPal API Capture Error: '' @ m) | _ \<Rightarrow> e)"

definition captureOrder :: "env \<Rightarrow> json \<Rightarrow> world \<Rightarrow> (js_error + gateway_result) \<times> world" where
  "captureOrder env orderID w =
     (if \<not> truthy orderID then (Inl (Error ''Order ID is required''), w)
      else
        (let collect = \<lparr>capture_id = orderID, capture_prefer = ''return=minimal''\<rparr>;
             w' = issue (OrdersCapture collect) w in
         case ordersCapture env collect of
           Inl e \<Rightarrow> (Inl (capture_rethrow e), w')
         | Inr r \<Rightarrow>
             (case JSON_parse (response_body r) of
                Inl e \<Rightarrow> (Inl (capture_rethrow e), w')
              | Inr j \<Rightarrow> (Inr \<lparr>jsonResponse = j, httpStatusCode = statusCode r\<rparr>, w'))))"

definition post_capture :: "env \<Rightarrow> req \<Rightarrow> world \<Rightarrow> reply \<times> world" where
  "post_capture env rq w =
     (case destructure ''req.params'' (params rq) ''orderID'' of
        Inl e \<Rightarrow> (error_details 500 ''Failed to capture order'' (message e), w)
      | Inr orderID \<Rightarrow>
          if \<not> truthy orderID then (error_reply 400 ''Order ID is required'', w)
          else
            (case captureOrder env orderID w of
               (Inr r, w') \<Rightarrow> (Reply (httpStatusCode r) (Json (jsonResponse r)), w')
             | (Inl e, w') \<Rightarrow> (error_details 500 ''Failed to capture order'' (message e), w')))"

section \<open>The store-first flow\<close>

subsection \<open>\<open>placeOrder\<close>\<close>

definition incomplete_order :: string where
  "incomplete_order = ''Donn'' @ [CHR 0xE9] @ ''es de commande incompl'' @ [CHR 0xE8] @ ''tes.''"

definition creation_failed :: string where
  "creation_failed = ''Erreur lors de la cr'' @ [CHR 0xE9] @ ''ation de la commande.''"

definition order_created :: string where
  "order_created =
     ''Commande cr'' @ [CHR 0xE9, CHR 0xE9] @ ''e avec succ'' @ [CHR 0xE8] @ ''s.''"

definition notification_failed :: string where
  "notification_failed =
     ''Commande cr'' @ [CHR 0xE9, CHR 0xE9] @ ''e, mais '' @ [CHR 0xE9] @ ''chec de l''
     @ [CHR 0x27] @ ''envoi de la notification.''"

text \<open>
  The destructuring of \<open>req.body\<close>, which precedes the \<open>try\<close> block. The variables
  \<open>cartItems\<close>, \<open>totalAmount\<close>, \<open>paymentMethod\<close> and \<open>order_status\<close> of the source are
  \<open>cart_items\<close>, \<open>total_amount\<close>, \<open>payment_method\<close> and \<open>status\<close> here, where the former
  name the columns.
\<close>

definition order_fields :: "json \<Rightarrow> js_error + json \<times> json \<times> json \<times> json \<times> json" where
  "order_fields b =
     bindE (destructure ''req.body'' b ''user'') (\<lambda>user.
     bindE (destructure ''req.body'' b ''cartItems'') (\<lambda>cart_items.
     bindE (destructure ''req.body'' b ''totalAmount'') (\<lambda>total_amount.
     bindE (destructure ''req.body'' b ''paymentMethod'') (\<lambda>payment_method.
     bindE (destructure ''req.body'' b ''order_status'') (\<lambda>status.
       Inr (user, cart_items, total_amount, payment_method, status))))))"

text \<open>The array \<open>values\<close> bound to the placeholders of the \<open>INSERT\<close>.\<close>

definition insert_values :: "json \<Rightarrow> json \<Rightarrow> json \<Rightarrow> json \<Rightarrow> json \<Rightarrow> js_error + order_values" where
  "insert_values user cart_items total_amount payment_method status =
     bindE (read_prop user ''email_customer'') (\<lambda>e.
     bindE (read_prop user ''user_Name'') (\<lambda>n.
     bindE (read_prop user ''ville'') (\<lambda>v.
     bindE (read_prop user ''quartier'') (\<lambda>q.
     bindE (read_prop user ''phoneNumber'') (\<lambda>p.
       Inr \<lparr>email = e, username = n, ville = v, quartier = q, phoneNumber = p,
            paymentMethod = payment_method, totalAmount = total_amount,
            order_status = (if truthy status then status else JStr ''pending''),
            cartItems = Stringify cart_items\<rparr>)))))"

definition order_details :: "json \<Rightarrow> json \<Rightarrow> json \<Rightarrow> js_error + orderDetails" where
  "order_details user cart_items total_amount =
     bindE (read_prop user ''user_Name'') (\<lambda>n.
     bindE (array_map ''cartItems'' (\<lambda>it. read_prop it ''productName'') cart_items) (\<lambda>names.
     bindE (read_prop user ''quartier'') (\<lambda>q.
     bindE (read_prop user ''ville'') (\<lambda>v.
     bindE (read_prop user ''phoneNumber'') (\<lambda>p.
       Inr \<lparr>clientName = n, productName = names, detail_totalAmount = total_amount,
            lieu = (q, v), detail_phoneNumber = p\<rparr>)))))"

text \<open>The \<open>try\<close> block of the query's callback, entered once the record is stored.\<close>

definition notify :: "env \<Rightarrow> json \<Rightarrow> json \<Rightarrow> json \<Rightarrow> nat \<Rightarrow> world \<Rightarrow> reply \<times> world" where
  "notify env user cart_items total_amount orderId w =
     (case order_details user cart_items total_amount of
        Inl e \<Rightarrow> (error_details 500 notification_failed (message e), w)
      | Inr d \<Rightarrow>
          (let w' = issue (Mail d) w in
           case SendOrderNotification env d of
             None \<Rightarrow>
               (Reply 201 (Json (JObj [(''message'', JStr order_created),
                                       (''orderId'', JNum (Fin (of_nat orderId)))])), w')
           | Some e \<Rightarrow> (error_details 500 notification_failed (message e), w')))"

text \<open>A query that fails leaves the table as it was.\<close>

definition placeOrder :: "env \<Rightarrow> req \<Rightarrow> world \<Rightarrow> reply \<times> world" where
  "placeOrder env rq w =
     (case order_fields (body rq) of
        Inl e \<Rightarrow> (Uncaught e, w)
      | Inr (user, cart_items, total_amount, payment_method, status) \<Rightarrow>
          if \<not> truthy user \<or> \<not> truthy cart_items \<or> \<not> isArray cart_items
             \<or> \<not> truthy total_amount \<or> \<not> truthy payment_method
          then (error_reply 400 incomplete_order, w)
          else
            (case insert_values user cart_items total_amount payment_method status of
               Inl e \<Rightarrow> (error_reply 500 creation_failed, w)
             | Inr vals \<Rightarrow>
                 (let w1 = issue (Query (InsertOrder vals)) w in
                  case query_fault env (InsertOrder vals) of
                    QueryThrows e \<Rightarrow> (error_reply 500 creation_failed, w1)
                  | QueryError m \<Rightarrow> (error_details 500 creation_failed m, w1)
                  | NoFault \<Rightarrow>
                      (case db_insert vals w1 of
                         (orderId, w2) \<Rightarrow> notify env user cart_items total_amount orderId w2))))"

subsection \<open>\<open>getAllOrder\<close> and \<open>getOrderById\<close>\<close>

definition getAllOrder :: "env \<Rightarrow> req \<Rightarrow> world \<Rightarrow> reply \<times> world" where
  "getAllOrder env rq w =
     (let w1 = issue (Query SelectAll) w in
      case query_fault env SelectAll of
        QueryThrows e \<Rightarrow>
          (error_details 500 ''Unexpected error during orders retrieval'' (message e), w1)
      | QueryError m \<Rightarrow> (error_details 500 ''Database error during orders retrieval'' m, w1)
      | NoFault \<Rightarrow> (Reply 200 (Listing ''Orders retrieved successfully'' (orders w1)), w1))"

definition getOrderById :: "env \<Rightarrow> req \<Rightarrow> world \<Rightarrow> reply \<times> world" where
  "getOrderById env rq w =
     (case destructure ''req.params'' (params rq) ''id'' of
        Inl e \<Rightarrow> (Uncaught e, w)
      | Inr i \<Rightarrow>
          if \<not> truthy i then (error_reply 400 ''Order ID is required'', w)
          else
            (let w1 = issue (Query (SelectById i)) w in
             case query_fault env (SelectById i) of
               QueryThrows e \<Rightarrow>
                 (error_details 500 ''Unexpected error during order retrieval'' (message e), w1)
             | QueryError m \<Rightarrow> (error_details 500 ''Database error during order retrieval'' m, w1)
             | NoFault \<Rightarrow>
                 (case db_select env i w1 of
                    [] \<Rightarrow> (error_reply 404 ''Order not found'', w1)
                  | r # rs \<Rightarrow> (Reply 200 (Row r), w1))))"

subsection \<open>\<open>updateOrder\<close>\<close>

definition updateOrder :: "env \<Rightarrow> req \<Rightarrow> world \<Rightarrow> reply \<times> world" where
  "updateOrder env rq w =
     (case destructure ''req.params'' (params rq) ''id'' of
        Inl e \<Rightarrow> (Uncaught e, w)
      | Inr i \<Rightarrow>
          (case destructure ''req.body'' (body rq) ''orderStatus'' of
             Inl e \<Rightarrow> (Uncaught e, w)
           | Inr orderStatus \<Rightarrow>
               if \<not> truthy i then (error_reply 400 ''Order ID is required'', w)
               else if \<not> truthy orderStatus then (error_reply 400 ''Order status is required'', w)
               else
                 (let w1 = issue (Query (UpdateStatus orderStatus i)) w in
                  case query_fault env (UpdateStatus orderStatus i) of
                    QueryThrows e \<Rightarrow>
                      (error_details 500 ''Unexpected error during order update'' (message e), w1)
                  | QueryError m \<Rightarrow>
                      (error_details 500 ''Database error during order update'' m, w1)
                  | NoFault \<Rightarrow>
                      (case db_update env orderStatus i w1 of
                         (affectedRows, w2) \<Rightarrow>
                           if affectedRows = 0 then (error_reply 404 ''Order not found'', w2)
                           else
                             (Reply 200 (Json (JObj [(''message'', JStr ''Order updated successfully''),
                                                     (''updatedStatus'', orderStatus)])), w2)))))"

subsection \<open>\<open>deleteOrder\<close>\<close>

definition deleteOrder :: "env \<Rightarrow> req \<Rightarrow> world \<Rightarrow> reply \<times> world" where
  "deleteOrder env rq w =
     (case destructure ''req.params'' (params rq) ''id'' of
        Inl e \<Rightarrow> (Uncaught e, w)
      | Inr i \<Rightarrow>
          if \<not> truthy i then (error_reply 400 ''Order ID is required'', w)
          else
            (let w1 = issue (Query (DeleteById i)) w in
             case query_fault env (DeleteById i) of
               QueryThrows e \<Rightarrow>
                 (error_details 500 ''Unexpected error during order deletion'' (message e), w1)
             | QueryError m \<Rightarrow> (error_details 500 ''Database error during order deletion'' m, w1)
             | NoFault \<Rightarrow>
                 (case db_delete env i w1 of
                    (affectedRows, w2) \<Rightarrow>
                      if affectedRows = 0 then (error_reply 404 ''Order not found'', w2)
                      else
                        (Reply 200 (Json (JObj [(''message'', JStr ''Order deleted successfully''),
                                                (''deletedOrderId'', i)])), w2))))"

subsection \<open>Every request path\<close>

datatype request =
    PostOrders req
  | PostCapture req
  | PlaceOrder req
  | GetAllOrder req
  | GetOrderById req
  | UpdateOrder req
  | DeleteOrder req

fun handle :: "env \<Rightarrow> request \<Rightarrow> world \<Rightarrow> reply \<times> world" where
  "handle env (PostOrders rq) w = post_orders env rq w"
| "handle env (PostCapture rq) w = post_capture env rq w"
| "handle env (PlaceOrder rq) w = placeOrder env rq w"
| "handle env (GetAllOrder rq) w = getAllOrder env rq w"
| "handle env (GetOrderById rq) w = getOrderById env rq w"
| "handle env (UpdateOrder rq) w = updateOrder env rq w"
| "handle env (DeleteOrder rq) w = deleteOrder env rq w"

section \<open>Vocabulary of the properties\<close>

text \<open>A value is absent when it is \<open>undefined\<close> or \<open>null\<close>.\<close>

definition absent :: "json \<Rightarrow> bool" where
  "absent v = (v = JUndefined \<or> v = JNull)"

definition empty_or_absent :: "json \<Rightarrow> bool" where
  "empty_or_absent v = (absent v \<or> v = JStr [])"

definition nonempty_array :: "json \<Rightarrow> bool" where
  "nonempty_array v = (case v of JArr xs \<Rightarrow> xs \<noteq> [] | _ \<Rightarrow> False)"

text \<open>
  The rules of the cart validator as the specification words them: the cart is absent, or
  its total is absent or \<open>\<le> 0\<close>, or its items is not a non-empty sequence.
\<close>

definition cart_invalid_spec :: "env \<Rightarrow> json \<Rightarrow> bool" where
  "cart_invalid_spec env cart =
     (absent cart
      \<or> absent (get_prop cart ''total'')
      \<or> le_zero env (get_prop cart ''total'') = Inr True
      \<or> \<not> nonempty_array (get_prop cart ''items''))"

text \<open>A number greater than zero.\<close>

fun num_gt_zero :: "jsnum \<Rightarrow> bool" where
  "num_gt_zero (Fin q) = (0 < q)"
| "num_gt_zero PosInf = True"
| "num_gt_zero NegInf = False"
| "num_gt_zero NaN = False"

text \<open>An item that is present and whose price is a number of a magnitude below \<open>10^21\<close>.\<close>

definition priced :: "json \<Rightarrow> bool" where
  "priced it = (\<not> absent it \<and>
     (case get_prop it ''price'' of JNum (Fin p) \<Rightarrow> \<bar>p\<bar> < 10 ^ 21 | _ \<Rightarrow> False))"

text \<open>
  An entry of the request's breakdown gives the item's name, its quantity, and its unit
  price in the currency, formatted with exactly two decimal places.
\<close>

definition entry_matches :: "json \<Rightarrow> item \<Rightarrow> bool" where
  "entry_matches it e =
     (name e = get_prop it ''productName''
      \<and> quantity e = get_prop it ''quantity''
      \<and> currency_code (unit_amount e) = ''USD''
      \<and> call_toFixed ''item.price'' (get_prop it ''price'') = Inr (unit_value (unit_amount e))
      \<and> two_decimals (unit_value (unit_amount e)))"

text \<open>
  The store-first flow. A body is complete when it has the four required fields, the items
  as an array; \<open>record_of b\<close> is the record that a complete body \<open>b\<close> describes, with the
  status \<open>pending\<close> unless the body has one; \<open>stored v w\<close> is the world after the store
  took the \<open>INSERT\<close> of \<open>v\<close>; \<open>created n\<close> is the reply to a successful placement.
\<close>

definition complete :: "json \<Rightarrow> bool" where
  "complete b =
     (truthy (get_prop b ''user'') \<and> isArray (get_prop b ''cartItems'')
      \<and> truthy (get_prop b ''totalAmount'') \<and> truthy (get_prop b ''paymentMethod''))"

definition record_of :: "json \<Rightarrow> order_values" where
  "record_of b =
     \<lparr>email = get_prop (get_prop b ''user'') ''email_customer'',
      username = get_prop (get_prop b ''user'') ''user_Name'',
      ville = get_prop (get_prop b ''user'') ''ville'',
      quartier = get_prop (get_prop b ''user'') ''quartier'',
      phoneNumber = get_prop (get_prop b ''user'') ''phoneNumber'',
      paymentMethod = get_prop b ''paymentMethod'',
      totalAmount = get_prop b ''totalAmount'',
      order_status = (if truthy (get_prop b ''order_status'') then get_prop b ''order_status''
                      else JStr ''pending''),
      cartItems = Stringify (get_prop b ''cartItems'')\<rparr>"

definition stored :: "order_values \<Rightarrow> world \<Rightarrow> world" where
  "stored v w =
     w\<lparr>orders := orders w @ [(auto_increment w, v)],
       auto_increment := Suc (auto_increment w),
       calls := calls w @ [Query (InsertOrder v)]\<rparr>"

definition created :: "nat \<Rightarrow> reply" where
  "created n =
     Reply 201 (Json (JObj [(''message'', JStr order_created),
                            (''orderId'', JNum (Fin (of_nat n)))]))"

text \<open>The calls issued between two worlds.\<close>

definition new_calls :: "world \<Rightarrow> world \<Rightarrow> call list" where
  "new_calls w w' = drop (length (calls w)) (calls w')"

text \<open>Every identifier in the table is below the counter, as the store guarantees.\<close>

definition ids_below_counter :: "world \<Rightarrow> bool" where
  "ids_below_counter w = list_all (\<lambda>r. fst r < auto_increment w) (orders w)"

text \<open>
  What the store-first validation guarantees of a record: its total is truthy and its
  item snapshot is the text of an array.
\<close>

definition row_present :: "order_row \<Rightarrow> bool" where
  "row_present r =
     (truthy (totalAmount (snd r)) \<and> (case cartItems (snd r) of Stringify v \<Rightarrow> isArray v))"

text \<open>
  What the specification excludes from the store: a record with a total \<open>\<le> 0\<close> or an
  empty item snapshot.
\<close>

definition row_violates_spec :: "order_row \<Rightarrow> bool" where
  "row_violates_spec r =
     ((case totalAmount (snd r) of JNum n \<Rightarrow> num_le_zero n | _ \<Rightarrow> False)
      \<or> cartItems (snd r) = Stringify (JArr []))"

text \<open>The record that \<open>UPDATE ... WHERE id = ?\<close> leaves in the place of \<open>r\<close>.\<close>

definition overwrite :: "env \<Rightarrow> json \<Rightarrow> json \<Rightarrow> order_row \<Rightarrow> order_row" where
  "overwrite env st i r = (if id_eq env (fst r) i then (fst r, (snd r)\<lparr>order_status := st\<rparr>) else r)"

section \<open>Sample collaborators and inputs\<close>

text \<open>
  An environment in which every collaborator answers: the authority with a created order,
  the store and the mailer without a fault. None of the inputs below has a text compared
  with a number, so \<open>ToNumber_text\<close> is never consulted on them.
\<close>

definition sample_env :: env where
  "sample_env =
     \<lparr>ToNumber_text = (\<lambda>v. Inr NaN),
      ordersCreate = (\<lambda>c. Inr \<lparr>response_body =
                                   JsonText (JObj [(''id'', JStr ''5O190127TN364715T''),
                                                   (''status'', JStr ''CREATED'')]),
                                 statusCode = 201\<rparr>),
      ordersCapture = (\<lambda>c. Inr \<lparr>response_body =
                                    JsonText (JObj [(''id'', capture_id c),
                                                    (''status'', JStr ''COMPLETED'')]),
                                  statusCode = 201\<rparr>),
      query_fault = (\<lambda>q. NoFault),
      id_eq = (\<lambda>n i. i = JStr (dec n)),
      SendOrderNotification = (\<lambda>d. None)\<rparr>"

definition empty_world :: world where
  "empty_world = \<lparr>orders = [], auto_increment = 1, calls = []\<rparr>"

definition item_A :: json where
  "item_A = JObj [(''productName'', JStr ''A''), (''quantity'', JNum (Fin 2)),
                  (''price'', JNum (Fin 3))]"

text \<open>A cart whose total is \<open>NaN\<close>, and one with total \<open>0\<close> and no items.\<close>

definition nan_cart :: json where
  "nan_cart = JObj [(''total'', JNum NaN), (''items'', JArr [item_A])]"

definition zero_cart :: json where
  "zero_cart = JObj [(''total'', JNum (Fin 0)), (''items'', JArr [])]"

text \<open>An authority that rejects every order.\<close>

definition gateway_down :: env where
  "gateway_down = sample_env\<lparr>ordersCreate := (\<lambda>c. Inl (ApiError ''INTERNAL_SERVER_ERROR''))\<rparr>"

text \<open>
  Carts that pass the validator: two items of price 3 for a total of 6; a total of
  \<open>10^21\<close>; an item without a price; an item with nothing but a negative quantity.
\<close>

definition six_cart :: json where
  "six_cart = JObj [(''total'', JNum (Fin 6)), (''items'', JArr [item_A])]"

definition big_cart :: json where
  "big_cart = JObj [(''total'', JNum (Fin (10 ^ 21))), (''items'', JArr [item_A])]"

definition unpriced_cart :: json where
  "unpriced_cart =
     JObj [(''total'', JNum (Fin 5)),
           (''items'', JArr [JObj [(''productName'', JStr ''A''), (''quantity'', JNum (Fin 1))]])]"

definition junk_cart :: json where
  "junk_cart =
     JObj [(''total'', JNum (Fin 5)), (''items'', JArr [JObj [(''quantity'', JNum (Fin (- 1)))]])]"

text \<open>The request that \<open>createOrder\<close> builds for \<open>six_cart\<close>.\<close>

definition six_collect :: create_collect where
  "six_collect =
     \<lparr>collect_body =
        \<lparr>intent = ''CAPTURE'',
         purchaseUnits =
           [\<lparr>amount = \<lparr>currencyCode = ''USD'', amount_value = Text ''6.00''\<rparr>,
             items = [\<lparr>name = JStr ''A'', quantity = JNum (Fin 2),
                       unit_amount = \<lparr>currency_code = ''USD'', unit_value = Text ''3.00''\<rparr>\<rparr>]\<rparr>]\<rparr>,
      create_prefer = ''return=minimal''\<rparr>"

text \<open>A mailer that fails.\<close>

definition mail_down :: env where
  "mail_down = sample_env\<lparr>SendOrderNotification := (\<lambda>d. Some (Error ''Connection timeout''))\<rparr>"

text \<open>
  An order of one item for 6, the record and the summary it gives; an order of no item
  for \<open>-5\<close> and its record; a table with one captured order; a status update.
\<close>

definition customer :: json where
  "customer =
     JObj [(''email_customer'', JStr ''a@b.c''), (''user_Name'', JStr ''Ada''),
           (''ville'', JStr ''Douala''), (''quartier'', JStr ''Akwa''),
           (''phoneNumber'', JStr ''600000000'')]"

definition order_body :: json where
  "order_body =
     JObj [(''user'', customer), (''cartItems'', JArr [item_A]),
           (''totalAmount'', JNum (Fin 6)), (''paymentMethod'', JStr ''cash'')]"

definition order_record :: order_values where
  "order_record =
     \<lparr>email = JStr ''a@b.c'', username = JStr ''Ada'', ville = JStr ''Douala'',
      quartier = JStr ''Akwa'', phoneNumber = JStr ''600000000'', paymentMethod = JStr ''cash'',
      totalAmount = JNum (Fin 6), order_status = JStr ''pending'',
      cartItems = Stringify (JArr [item_A])\<rparr>"

definition order_mail :: orderDetails where
  "order_mail =
     \<lparr>clientName = JStr ''Ada'', productName = [JStr ''A''], detail_totalAmount = JNum (Fin 6),
      lieu = (JStr ''Akwa'', JStr ''Douala''), detail_phoneNumber = JStr ''600000000''\<rparr>"

definition negative_body :: json where
  "negative_body =
     JObj [(''user'', customer), (''cartItems'', JArr []),
           (''totalAmount'', JNum (Fin (- 5))), (''paymentMethod'', JStr ''cash'')]"

definition negative_record :: order_values where
  "negative_record =
     \<lparr>email = JStr ''a@b.c'', username = JStr ''Ada'', ville = JStr ''Douala'',
      quartier = JStr ''Akwa'', phoneNumber = JStr ''600000000'', paymentMethod = JStr ''cash'',
      totalAmount = JNum (Fin (- 5)), order_status = JStr ''pending'',
      cartItems = Stringify (JArr [])\<rparr>"

definition captured_world :: world where
  "captured_world =
     \<lparr>orders = [(1, order_record\<lparr>order_status := JStr ''captured''\<rparr>)], auto_increment = 2,
      calls = []\<rparr>"

definition update_req :: "string \<Rightarrow> string \<Rightarrow> req" where
  "update_req i st = \<lparr>params = JObj [(''id'', JStr i)], body = JObj [(''orderStatus'', JStr st)]\<rparr>"

section \<open>Auxiliary facts\<close>

lemma bindE_Inr [simp]: "bindE (Inr v) f = f v"
  by (simp add: bindE_def)

lemma bindE_Inl [simp]: "bindE (Inl e) f = Inl e"
  by (simp add: bindE_def)

lemma read_prop_truthy: "truthy v \<Longrightarrow> read_prop v k = Inr (get_prop v k)"
  by (cases v) simp_all

lemma read_prop_present: "\<not> absent v \<Longrightarrow> read_prop v k = Inr (get_prop v k)"
  by (cases v) (simp_all add: absent_def)

lemma destructure_present: "\<not> absent v \<Longrightarrow> destructure expr v k = Inr (get_prop v k)"
  by (cases v) (simp_all add: absent_def)

lemma destructure_absent: "absent v \<Longrightarrow> \<exists>e. destructure expr v k = Inl e"
  by (auto simp: absent_def)

lemma truthy_present: "truthy v \<Longrightarrow> \<not> absent v"
  by (auto simp: absent_def)

subsection \<open>The cart validator\<close>

lemma validateCartData_fails:
  "isl (validateCartData env cart) \<longleftrightarrow>
     (absent cart \<or> absent (get_prop cart ''total'') \<or> get_prop cart ''total'' = JNum NaN
      \<or> le_zero env (get_prop cart ''total'') \<noteq> Inr False
      \<or> \<not> nonempty_array (get_prop cart ''items''))"
proof (cases "truthy cart")
  case False
  then have "get_prop cart ''total'' = JUndefined"
    by (cases cart) (auto split: if_splits)
  with False show ?thesis
    by (simp add: validateCartData_def absent_def)
next
  case cart: True
  then have present: "\<not> absent cart"
    by (rule truthy_present)
  show ?thesis
  proof (cases "truthy (get_prop cart ''total'')")
    case False
    then have "absent (get_prop cart ''total'') \<or> get_prop cart ''total'' = JNum NaN
        \<or> le_zero env (get_prop cart ''total'') = Inr True"
      by (cases "get_prop cart ''total''") (auto simp: absent_def le_zero_def)
    with cart False show ?thesis
      by (auto simp add: validateCartData_def read_prop_truthy)
  next
    case total: True
    then have ok: "\<not> absent (get_prop cart ''total'')" "get_prop cart ''total'' \<noteq> JNum NaN"
      by (auto simp: absent_def)
    show ?thesis
    proof (cases "le_zero env (get_prop cart ''total'')")
      case (Inl e)
      with cart total show ?thesis
        by (simp add: validateCartData_def read_prop_truthy)
    next
      case (Inr b)
      with cart total ok present show ?thesis
        by (cases "get_prop cart ''items''")
           (auto simp add: validateCartData_def read_prop_truthy nonempty_array_def)
    qed
  qed
qed

lemma createOrder_rejects_invalid:
  "isl (validateCartData env cart) \<Longrightarrow> \<exists>e. createOrder env cart w = (Inl e, w)"
  by (cases "validateCartData env cart") (auto simp: createOrder_def)

subsection \<open>Request construction\<close>

lemma num_gt_zero_truthy: "num_gt_zero n \<Longrightarrow> truthy (JNum n) \<and> \<not> num_le_zero n"
  by (cases n) auto

lemma has_total_present: "get_prop cart ''total'' = JNum n \<Longrightarrow> truthy cart"
  by (cases cart) (auto split: if_splits)

lemma validateCartData_passes:
  assumes "get_prop cart ''total'' = JNum n" "num_gt_zero n"
    and "get_prop cart ''items'' = JArr its" "its \<noteq> []"
  shows "validateCartData env cart = Inr ()"
  using assms has_total_present [OF assms(1)] num_gt_zero_truthy [OF assms(2)]
  by (simp add: validateCartData_def read_prop_truthy le_zero_def)

lemma build_collect_numeric_total:
  assumes "get_prop cart ''total'' = JNum n" "get_prop cart ''items'' = JArr its"
  shows "build_collect cart =
     bindE (mapE item_entry its) (\<lambda>entries.
       Inr \<lparr>collect_body =
              \<lparr>intent = ''CAPTURE'',
               purchaseUnits =
                 [\<lparr>amount = \<lparr>currencyCode = ''USD'', amount_value = toFixed2 n\<rparr>, items = entries\<rparr>]\<rparr>,
            create_prefer = ''return=minimal''\<rparr>)"
  using assms has_total_present [OF assms(1)]
  by (simp add: build_collect_def read_prop_truthy)

lemma item_entry_present:
  "\<not> absent it \<Longrightarrow>
     item_entry it =
       bindE (call_toFixed ''item.price'' (get_prop it ''price'')) (\<lambda>v.
         Inr \<lparr>name = get_prop it ''productName'', quantity = get_prop it ''quantity'',
              unit_amount = \<lparr>currency_code = ''USD'', unit_value = v\<rparr>\<rparr>)"
  by (simp add: item_entry_def read_prop_present)

lemma createOrder_valid:
  assumes "validateCartData env cart = Inr ()"
  shows "(\<forall>e. build_collect cart = Inl e \<longrightarrow> createOrder env cart w = (Inl (create_rethrow e), w))
       \<and> (\<forall>c. build_collect cart = Inr c \<longrightarrow>
             snd (createOrder env cart w) = issue (OrdersCreate c) w)"
  using assms by (auto simp: createOrder_def Let_def split: sum.splits)

subsection \<open>Two decimal places\<close>

lemma is_digit_digit_char: "d < 10 \<Longrightarrow> is_digit (digit_char d)"
  unfolding is_digit_def digit_char_def by (rule nth_mem) simp

lemma dec_digits: "list_all is_digit (dec n) \<and> dec n \<noteq> []"
proof (induction n rule: dec.induct)
  case (1 n)
  show ?case
  proof (cases "n < 10")
    case True
    then show ?thesis
      by (subst dec.simps, subst (2) dec.simps) (simp add: is_digit_digit_char)
  next
    case False
    with 1 show ?thesis
      by (subst dec.simps, subst (2) dec.simps) (simp add: is_digit_digit_char)
  qed
qed

lemma point_before_last_two:
  assumes "list_all is_digit ds" "3 \<le> length ds"
  shows "unsigned_two_decimals (take (length ds - 2) ds @ ''.'' @ drop (length ds - 2) ds)"
proof -
  obtain b r1 where r1: "rev ds = b # r1"
    using assms(2) by (cases "rev ds") auto
  obtain a r2 where r2: "r1 = a # r2"
    using assms(2) r1 by (cases r1) (auto dest: arg_cong [where f = length])
  have ds: "ds = rev r2 @ [a, b]"
    using r1 r2 by (simp add: rev_swap [symmetric])
  have ne: "r2 \<noteq> []"
    using assms(2) ds by auto
  have dg: "is_digit a" "is_digit b" "list_all is_digit r2"
    using assms(1) ds by (auto simp: list_all_iff)
  have "take (length ds - 2) ds = rev r2" "drop (length ds - 2) ds = [a, b]"
    using ds by auto
  then show ?thesis
    using ne dg by (simp add: unsigned_two_decimals_def)
qed

lemma fixed2_shape:
  "unsigned_two_decimals (fixed2 x) \<and> (\<exists>c t. fixed2 x = c # t \<and> is_digit c)"
proof -
  define m where "m = dec (nat \<lfloor>x * 100 + 1 / 2\<rfloor>)"
  define m' where "m' = (if length m \<le> 2 then replicate (3 - length m) (CHR ''0'') @ m else m)"
  have m: "list_all is_digit m" "m \<noteq> []"
    using dec_digits by (simp_all add: m_def)
  have z: "is_digit (CHR ''0'')"
    by (simp add: is_digit_def)
  have d: "list_all is_digit m'"
    using m z by (auto simp: m'_def list_all_iff)
  have l: "3 \<le> length m'"
    by (auto simp: m'_def)
  have f: "fixed2 x = take (length m' - 2) m' @ ''.'' @ drop (length m' - 2) m'"
    by (simp add: fixed2_def Let_def m'_def m_def)
  have u: "unsigned_two_decimals (fixed2 x)"
    unfolding f using d l by (rule point_before_last_two)
  obtain c t where ct: "m' = c # t"
    using l by (cases m') auto
  have k: "length m' - 2 = Suc (length m' - 3)"
    using l by arith
  have "fixed2 x = c # (take (length m' - 3) t @ ''.'' @ drop (length m' - 2) m')"
    unfolding f by (subst k, subst ct) simp
  moreover have "is_digit c"
    using d ct by simp
  ultimately show ?thesis
    using u by blast
qed

lemma toFixed2_two_decimals: "\<bar>q\<bar> < 10 ^ 21 \<Longrightarrow> two_decimals (toFixed2 (Fin q))"
proof -
  assume b: "\<bar>q\<bar> < 10 ^ 21"
  obtain c t where ct: "fixed2 \<bar>q\<bar> = c # t" "is_digit c"
    using fixed2_shape by blast
  then have "c \<noteq> CHR ''-''"
    by (auto simp: is_digit_def)
  with b ct fixed2_shape [of "\<bar>q\<bar>"] show ?thesis
    by auto
qed

lemma item_entry_priced:
  assumes "priced it"
  shows "\<exists>e. item_entry it = Inr e \<and> entry_matches it e"
proof -
  from assms obtain p where p: "get_prop it ''price'' = JNum (Fin p)" "\<bar>p\<bar> < 10 ^ 21"
    by (auto simp: priced_def split: json.splits jsnum.splits)
  from assms have "\<not> absent it"
    by (simp add: priced_def)
  then show ?thesis
    using p toFixed2_two_decimals [OF p(2)]
    by (simp add: item_entry_present entry_matches_def del: toFixed2.simps)
qed

lemma mapE_item_entry:
  "list_all priced its \<Longrightarrow> \<exists>es. mapE item_entry its = Inr es \<and> list_all2 entry_matches its es"
proof (induction its)
  case Nil
  then show ?case by simp
next
  case (Cons it its)
  then obtain es where es: "mapE item_entry its = Inr es" "list_all2 entry_matches its es"
    by auto
  from Cons.prems obtain e where e: "item_entry it = Inr e" "entry_matches it e"
    using item_entry_priced by auto
  show ?case
    using es e by simp
qed

lemma toFixed2_6: "toFixed2 (Fin 6) = Text ''6.00''"
  by code_simp

lemma toFixed2_3: "toFixed2 (Fin 3) = Text ''3.00''"
  by code_simp

lemma build_collect_six: "build_collect six_cart = Inr six_collect"
  by (simp add: build_collect_def six_cart_def six_collect_def item_entry_def item_A_def
      toFixed2_6 toFixed2_3 del: toFixed2.simps)

lemma validateCartData_six: "validateCartData env six_cart = Inr ()"
  by (simp add: validateCartData_def six_cart_def le_zero_def)

subsection \<open>The gateway flow leaves the store alone\<close>

lemma validateCartData_truthy: "validateCartData env cart = Inr u \<Longrightarrow> truthy cart"
  by (auto simp: validateCartData_def split: if_splits)

lemma issue_frame [simp]:
  "orders (issue c w) = orders w" "auto_increment (issue c w) = auto_increment w"
  "calls (issue c w) = calls w @ [c]"
  by (simp_all add: issue_def)

lemma createOrder_frame:
  "orders (snd (createOrder env cart w)) = orders w
   \<and> auto_increment (snd (createOrder env cart w)) = auto_increment w"
  by (simp add: createOrder_def Let_def split: sum.splits)

lemma post_orders_frame:
  "orders (snd (post_orders env rq w)) = orders w
   \<and> auto_increment (snd (post_orders env rq w)) = auto_increment w"
proof (cases "destructure ''req.body'' (body rq) ''cart''")
  case (Inl e)
  then show ?thesis by (simp add: post_orders_def)
next
  case (Inr cart)
  show ?thesis
  proof (cases "createOrder env cart w")
    case (Pair r w')
    then have "orders w' = orders w \<and> auto_increment w' = auto_increment w"
      using createOrder_frame [of env cart w] by simp
    with Inr Pair show ?thesis
      by (cases r) (simp_all add: post_orders_def)
  qed
qed

lemma createOrder_gateway_throws:
  assumes "validateCartData env cart = Inr ()" "build_collect cart = Inr c"
    and "ordersCreate env c = Inl e"
  shows "createOrder env cart w = (Inl (create_rethrow e), issue (OrdersCreate c) w)"
  using assms by (simp add: createOrder_def Let_def)

subsection \<open>The outcomes of \<open>placeOrder\<close>\<close>

lemma isArray_truthy: "isArray v \<Longrightarrow> truthy v"
  by (cases v) (simp_all add: isArray_def)

lemma order_fields_present:
  "\<not> absent b \<Longrightarrow>
     order_fields b =
       Inr (get_prop b ''user'', get_prop b ''cartItems'', get_prop b ''totalAmount'',
            get_prop b ''paymentMethod'', get_prop b ''order_status'')"
  by (simp add: order_fields_def destructure_present)

lemma order_fields_absent: "absent b \<Longrightarrow> \<exists>e. order_fields b = Inl e"
  by (auto simp: order_fields_def absent_def)

lemma insert_values_complete:
  "complete b \<Longrightarrow>
     insert_values (get_prop b ''user'') (get_prop b ''cartItems'') (get_prop b ''totalAmount'')
       (get_prop b ''paymentMethod'') (get_prop b ''order_status'') = Inr (record_of b)"
  by (simp add: complete_def insert_values_def read_prop_truthy record_of_def)

lemma db_insert_issue:
  "db_insert v (issue (Query (InsertOrder v)) w) = (auto_increment w, stored v w)"
  by (simp add: db_insert_def issue_def stored_def)

lemma placeOrder_absent: "absent (body rq) \<Longrightarrow> \<exists>e. placeOrder env rq w = (Uncaught e, w)"
  using order_fields_absent [of "body rq"] by (auto simp: placeOrder_def)

lemma placeOrder_incomplete:
  "\<not> absent (body rq) \<Longrightarrow> \<not> complete (body rq) \<Longrightarrow>
     placeOrder env rq w = (error_reply 400 incomplete_order, w)"
  by (auto simp add: placeOrder_def order_fields_present complete_def dest: isArray_truthy)

lemma placeOrder_complete:
  assumes "\<not> absent (body rq)" "complete (body rq)"
  shows "placeOrder env rq w =
     (case query_fault env (InsertOrder (record_of (body rq))) of
        QueryThrows e \<Rightarrow>
          (error_reply 500 creation_failed, issue (Query (InsertOrder (record_of (body rq)))) w)
      | QueryError m \<Rightarrow>
          (error_details 500 creation_failed m, issue (Query (InsertOrder (record_of (body rq)))) w)
      | NoFault \<Rightarrow>
          notify env (get_prop (body rq) ''user'') (get_prop (body rq) ''cartItems'')
            (get_prop (body rq) ''totalAmount'') (auto_increment w)
            (stored (record_of (body rq)) w))"
proof -
  have c: "truthy (get_prop (body rq) ''user'')" "truthy (get_prop (body rq) ''cartItems'')"
    "isArray (get_prop (body rq) ''cartItems'')" "truthy (get_prop (body rq) ''totalAmount'')"
    "truthy (get_prop (body rq) ''paymentMethod'')"
    using assms(2) by (auto simp: complete_def dest: isArray_truthy)
  show ?thesis
    by (simp add: placeOrder_def order_fields_present [OF assms(1)] c
        insert_values_complete [OF assms(2)] Let_def db_insert_issue split: db_fault.splits)
qed

lemma notify_eq:
  "notify env u ci ta n w =
     (case order_details u ci ta of
        Inl e \<Rightarrow> (error_details 500 notification_failed (message e), w)
      | Inr d \<Rightarrow>
          (case SendOrderNotification env d of
             None \<Rightarrow> (created n, issue (Mail d) w)
           | Some e \<Rightarrow> (error_details 500 notification_failed (message e), issue (Mail d) w)))"
  by (simp add: notify_def created_def Let_def split: sum.splits option.splits)

lemma stored_frame [simp]:
  "orders (stored v w) = orders w @ [(auto_increment w, v)]"
  "calls (stored v w) = calls w @ [Query (InsertOrder v)]"
  "auto_increment (stored v w) = Suc (auto_increment w)"
  by (simp_all add: stored_def)

lemma replies_differ [simp]:
  "error_details st e d \<noteq> created n" "created n \<noteq> error_details st e d"
  "error_reply st e \<noteq> created n" "created n \<noteq> error_reply st e"
  "error_reply st e \<noteq> error_details st' e' d'" "error_details st' e' d' \<noteq> error_reply st e"
  "Uncaught x \<noteq> created n" "Uncaught x \<noteq> error_details st e d" "Uncaught x \<noteq> error_reply st e"
  by (simp_all add: error_details_def created_def error_reply_def)

lemma messages_differ [simp]:
  "notification_failed \<noteq> creation_failed" "creation_failed \<noteq> notification_failed"
  by (simp_all add: notification_failed_def creation_failed_def)

lemma error_details_inject [simp]:
  "error_details st e d = error_details st' e' d' \<longleftrightarrow> st = st' \<and> e = e' \<and> d = d'"
  by (auto simp: error_details_def)

lemma placeOrder_outcomes:
  obtains
    (uncaught) e where "placeOrder env rq w = (Uncaught e, w)"
  | (incomplete) "placeOrder env rq w = (error_reply 400 incomplete_order, w)"
  | (throws) "placeOrder env rq w =
        (error_reply 500 creation_failed, issue (Query (InsertOrder (record_of (body rq)))) w)"
  | (fault) m where "placeOrder env rq w =
        (error_details 500 creation_failed m, issue (Query (InsertOrder (record_of (body rq)))) w)"
  | (unsent) e where "complete (body rq)"
      "query_fault env (InsertOrder (record_of (body rq))) = NoFault"
      "placeOrder env rq w =
        (error_details 500 notification_failed (message e), stored (record_of (body rq)) w)"
  | (sent) d where "complete (body rq)"
      "query_fault env (InsertOrder (record_of (body rq))) = NoFault"
      "SendOrderNotification env d = None"
      "placeOrder env rq w =
        (created (auto_increment w), issue (Mail d) (stored (record_of (body rq)) w))"
  | (failed) d e where "complete (body rq)"
      "query_fault env (InsertOrder (record_of (body rq))) = NoFault"
      "SendOrderNotification env d = Some e"
      "placeOrder env rq w =
        (error_details 500 notification_failed (message e),
         issue (Mail d) (stored (record_of (body rq)) w))"
proof (cases "absent (body rq)")
  case True
  then show ?thesis using placeOrder_absent [of rq env w] uncaught by blast
next
  case present: False
  show ?thesis
  proof (cases "complete (body rq)")
    case False
    then show ?thesis using placeOrder_incomplete [OF present] incomplete by blast
  next
    case True
    note eq = placeOrder_complete [OF present True, of env w]
    show ?thesis
    proof (cases "query_fault env (InsertOrder (record_of (body rq)))")
      case NoFault
      show ?thesis
      proof (cases "order_details (get_prop (body rq) ''user'') (get_prop (body rq) ''cartItems'')
            (get_prop (body rq) ''totalAmount'')")
        case (Inl e)
        then show ?thesis using eq NoFault True unsent [of e] by (simp add: notify_eq)
      next
        case (Inr d)
        show ?thesis
        proof (cases "SendOrderNotification env d")
          case None
          then show ?thesis using eq NoFault True Inr sent [of d] by (simp add: notify_eq)
        next
          case (Some e)
          then show ?thesis using eq NoFault True Inr failed [of d e] by (simp add: notify_eq)
        qed
      qed
    next
      case (QueryError m)
      then show ?thesis using eq fault [of m] by simp
    next
      case (QueryThrows e)
      then show ?thesis using eq throws by simp
    qed
  qed
qed

lemma order_body_facts:
  "\<not> absent order_body" "complete order_body" "record_of order_body = order_record"
  "order_details (get_prop order_body ''user'') (get_prop order_body ''cartItems'')
     (get_prop order_body ''totalAmount'') = Inr order_mail"
  by (simp_all add: order_body_def absent_def complete_def customer_def isArray_def record_of_def
      order_record_def order_details_def order_mail_def item_A_def)

lemma placeOrder_stored:
  assumes "\<not> absent (body rq)" "complete (body rq)"
    and "query_fault env (InsertOrder (record_of (body rq))) = NoFault"
  shows "placeOrder env rq w =
     notify env (get_prop (body rq) ''user'') (get_prop (body rq) ''cartItems'')
       (get_prop (body rq) ''totalAmount'') (auto_increment w) (stored (record_of (body rq)) w)"
  using placeOrder_complete [OF assms(1,2), of env w] assms(3) by simp

subsection \<open>What each handler does to the table\<close>

lemma captureOrder_frame:
  "orders (snd (captureOrder env i w)) = orders w"
  by (simp add: captureOrder_def Let_def split: sum.splits)

lemma post_capture_frame: "orders (snd (post_capture env rq w)) = orders w"
proof (cases "destructure ''req.params'' (params rq) ''orderID''")
  case (Inl e)
  then show ?thesis by (simp add: post_capture_def)
next
  case (Inr i)
  show ?thesis
  proof (cases "captureOrder env i w")
    case (Pair r w')
    then have "orders w' = orders w"
      using captureOrder_frame [of env i w] by simp
    with Inr Pair show ?thesis
      by (cases r) (simp_all add: post_capture_def)
  qed
qed

lemma getAllOrder_frame: "orders (snd (getAllOrder env rq w)) = orders w"
  by (simp add: getAllOrder_def Let_def split: db_fault.splits)

lemma getOrderById_frame: "orders (snd (getOrderById env rq w)) = orders w"
  by (simp add: getOrderById_def Let_def split: db_fault.splits sum.splits list.splits)

lemma updateOrder_frame:
  "orders (snd (updateOrder env rq w)) = orders w
   \<or> (\<exists>st i. orders (snd (updateOrder env rq w)) = map (overwrite env st i) (orders w))"
  by (auto simp add: updateOrder_def Let_def db_update_def overwrite_def
      split: db_fault.splits sum.splits)

lemma deleteOrder_frame:
  "orders (snd (deleteOrder env rq w)) = orders w
   \<or> (\<exists>i. orders (snd (deleteOrder env rq w)) = filter (\<lambda>r. \<not> id_eq env (fst r) i) (orders w))"
  by (auto simp add: deleteOrder_def Let_def db_delete_def split: db_fault.splits sum.splits)

lemma placeOrder_frame:
  "orders (snd (placeOrder env rq w)) = orders w
   \<or> (complete (body rq)
       \<and> orders (snd (placeOrder env rq w)) = orders w @ [(auto_increment w, record_of (body rq))])"
  by (cases rule: placeOrder_outcomes [of env rq w]) auto

lemma row_present_overwrite: "row_present (overwrite env st i r) = row_present r"
  by (simp add: row_present_def overwrite_def)

lemma row_present_record_of: "complete b \<Longrightarrow> row_present (n, record_of b)"
  by (simp add: row_present_def complete_def record_of_def)

lemma handle_rows_present:
  assumes "list_all row_present (orders w)"
  shows "list_all row_present (orders (snd (handle env r w)))"
proof (cases r)
  case (PostOrders rq)
  then show ?thesis using assms post_orders_frame [of env rq w] by simp
next
  case (PostCapture rq)
  then show ?thesis using assms post_capture_frame [of env rq w] by simp
next
  case (PlaceOrder rq)
  then show ?thesis
    using assms placeOrder_frame [of env rq w] row_present_record_of [of "body rq"]
    by auto
next
  case (GetAllOrder rq)
  then show ?thesis using assms getAllOrder_frame [of env rq w] by simp
next
  case (GetOrderById rq)
  then show ?thesis using assms getOrderById_frame [of env rq w] by simp
next
  case (UpdateOrder rq)
  then show ?thesis
    using assms updateOrder_frame [of env rq w]
    by (auto simp: list_all_iff row_present_overwrite)
next
  case (DeleteOrder rq)
  then show ?thesis
    using assms deleteOrder_frame [of env rq w] by (auto simp: list_all_iff)
qed

lemma updateOrder_runs:
  assumes "destructure ''req.params'' (params rq) ''id'' = Inr i" "destructure ''req.body'' (body rq) ''orderStatus'' = Inr st"
    and "truthy i" "truthy st" "query_fault env (UpdateStatus st i) = NoFault"
  shows "updateOrder env rq w =
     (if db_select env i w = [] then error_reply 404 ''Order not found''
      else Reply 200 (Json (JObj [(''message'', JStr ''Order updated successfully''),
                                  (''updatedStatus'', st)])),
      (issue (Query (UpdateStatus st i)) w)\<lparr>orders := map (overwrite env st i) (orders w)\<rparr>)"
  using assms
  by (simp add: updateOrder_def Let_def db_update_def db_select_def overwrite_def issue_def
      cong: map_cong)

lemma overwrite_none:
  "\<forall>r \<in> set rs. \<not> id_eq env (fst r) i \<Longrightarrow> map (overwrite env st i) rs = rs"
  by (induction rs) (simp_all add: overwrite_def)

lemma dec_Suc_0 [simp]: "dec (Suc 0) = ''1''"
  by code_simp

subsection \<open>The counter bounds the identifiers\<close>

text \<open>The table starts so and every handler keeps it so.\<close>

lemma ids_issue [simp]: "ids_below_counter (issue c w) = ids_below_counter w"
  by (simp add: ids_below_counter_def)

lemma ids_stored: "ids_below_counter w \<Longrightarrow> ids_below_counter (stored v w)"
  by (auto simp: ids_below_counter_def list_all_iff)

lemma ids_createOrder: "ids_below_counter (snd (createOrder env cart w)) = ids_below_counter w"
  using createOrder_frame [of env cart w] by (simp add: ids_below_counter_def)

lemma ids_captureOrder: "ids_below_counter (snd (captureOrder env i w)) = ids_below_counter w"
  by (simp add: captureOrder_def Let_def split: sum.splits)

lemma handle_ids_below_counter:
  assumes "ids_below_counter w"
  shows "ids_below_counter (snd (handle env r w))"
proof (cases r)
  case (PostOrders rq)
  then show ?thesis
    using assms post_orders_frame [of env rq w] by (simp add: ids_below_counter_def)
next
  case (PostCapture rq)
  show ?thesis
  proof (cases "destructure ''req.params'' (params rq) ''orderID''")
    case (Inl e)
    then show ?thesis using assms PostCapture by (simp add: post_capture_def)
  next
    case (Inr i)
    show ?thesis
    proof (cases "captureOrder env i w")
      case (Pair x w')
      then have "ids_below_counter w'"
        using assms ids_captureOrder [of env i w] by simp
      with Inr Pair PostCapture assms show ?thesis
        by (cases x) (simp_all add: post_capture_def)
    qed
  qed
next
  case (PlaceOrder rq)
  have "ids_below_counter (snd (placeOrder env rq w))"
    by (cases rule: placeOrder_outcomes [of env rq w]) (use assms in \<open>auto intro: ids_stored\<close>)
  with PlaceOrder show ?thesis by simp
next
  case (GetAllOrder rq)
  then show ?thesis
    using assms by (simp add: getAllOrder_def Let_def split: db_fault.splits)
next
  case (GetOrderById rq)
  then show ?thesis
    using assms
    by (simp add: getOrderById_def Let_def split: db_fault.splits sum.splits list.splits)
next
  case (UpdateOrder rq)
  then show ?thesis
    using assms
    by (auto simp add: updateOrder_def Let_def db_update_def ids_below_counter_def list_all_iff
        issue_def split: db_fault.splits sum.splits)
next
  case (DeleteOrder rq)
  then show ?thesis
    using assms
    by (auto simp add: deleteOrder_def Let_def db_delete_def ids_below_counter_def list_all_iff
        issue_def split: db_fault.splits sum.splits)
qed

lemma ids_empty_world: "ids_below_counter empty_world"
  by (simp add: ids_below_counter_def empty_world_def)

section \<open>Properties of the gateway flow\<close>

text \<open>
  C4. \<open>captureOrder\<close> called with an empty or absent order id fails with the error
  \<open>Order ID is required\<close> and leaves the world as it was: no call reaches the payment
  authority.
\<close>

theorem captureOrder_requires_id:
  "empty_or_absent orderID \<Longrightarrow>
     captureOrder env orderID w = (Inl (Error ''Order ID is required''), w)"
  by (auto simp: empty_or_absent_def absent_def captureOrder_def)

theorem captureOrder_requires_id_witness:
  "empty_or_absent (JStr []) \<and>
   captureOrder sample_env (JStr []) empty_world = (Inl (Error ''Order ID is required''), empty_world)"
  using captureOrder_requires_id [of "JStr []" sample_env empty_world]
  by (simp add: empty_or_absent_def)

text \<open>
  C3, as stated: \<open>validateCartData\<close> fails exactly when the cart is absent, or its total is
  absent or \<open>\<le> 0\<close>, or its items is not a non-empty sequence. It does not: a total of
  \<open>NaN\<close> is present and is not \<open>\<le> 0\<close>, and the cart is rejected.
\<close>

theorem validateCartData_NaN_counterexample:
  "validateCartData sample_env nan_cart = Inl invalid_total
   \<and> \<not> cart_invalid_spec sample_env nan_cart"
  by (simp add: validateCartData_def nan_cart_def cart_invalid_spec_def absent_def
      le_zero_def nonempty_array_def)

text \<open>
  C3, amended: \<open>validateCartData\<close> fails exactly when the cart is absent, or its total is
  absent, \<open>NaN\<close> or \<open>\<le> 0\<close>, or the comparison of the total with \<open>0\<close> throws, or its
  items is not a non-empty sequence; whenever it fails, \<open>createOrder\<close> rejects and leaves
  the world as it was, so that no call reaches the gateway. The validator is a function of
  the cart alone: it has no world to change.
\<close>

theorem validateCartData_fails_iff:
  "(isl (validateCartData env cart) \<longleftrightarrow>
      cart_invalid_spec env cart \<or> get_prop cart ''total'' = JNum NaN
      \<or> isl (le_zero env (get_prop cart ''total'')))
   \<and> (isl (validateCartData env cart) \<longrightarrow> (\<exists>e. createOrder env cart w = (Inl e, w)))"
proof -
  have "le_zero env (get_prop cart ''total'') \<noteq> Inr False \<longleftrightarrow>
        le_zero env (get_prop cart ''total'') = Inr True
        \<or> isl (le_zero env (get_prop cart ''total''))"
    by (cases "le_zero env (get_prop cart ''total'')") auto
  then show ?thesis
    using validateCartData_fails [of env cart] createOrder_rejects_invalid [of env cart w]
    unfolding cart_invalid_spec_def by blast
qed

theorem validateCartData_fails_iff_witness:
  "isl (validateCartData sample_env zero_cart)
   \<and> cart_invalid_spec sample_env zero_cart
   \<and> (\<exists>e. createOrder sample_env zero_cart empty_world = (Inl e, empty_world))"
proof -
  have "cart_invalid_spec sample_env zero_cart"
    by (simp add: cart_invalid_spec_def zero_cart_def nonempty_array_def)
  then show ?thesis
    using validateCartData_fails_iff [of sample_env zero_cart empty_world] by blast
qed

text \<open>
  C10. \<open>validateCartData\<close> does not look into the items: every cart whose total is a
  number greater than zero and whose items is a non-empty array passes, whatever the items
  are. The items then reach the construction of the request as they are: each present
  item contributes its \<open>productName\<close> and \<open>quantity\<close> unchecked (missing, or not
  positive), and its \<open>price\<close> goes to \<open>toFixed\<close>, which throws on a missing price only
  there; \<open>createOrder\<close> sends the request that the construction gives, or rethrows its
  exception.
\<close>

theorem validateCartData_ignores_items:
  assumes "get_prop cart ''total'' = JNum n" "num_gt_zero n"
    and "get_prop cart ''items'' = JArr its" "its \<noteq> []"
  shows "validateCartData env cart = Inr ()
    \<and> build_collect cart =
        bindE (mapE item_entry its) (\<lambda>entries.
          Inr \<lparr>collect_body =
                 \<lparr>intent = ''CAPTURE'',
                  purchaseUnits =
                    [\<lparr>amount = \<lparr>currencyCode = ''USD'', amount_value = toFixed2 n\<rparr>,
                      items = entries\<rparr>]\<rparr>,
               create_prefer = ''return=minimal''\<rparr>)
    \<and> (\<forall>it. \<not> absent it \<longrightarrow>
          item_entry it =
            bindE (call_toFixed ''item.price'' (get_prop it ''price'')) (\<lambda>v.
              Inr \<lparr>name = get_prop it ''productName'', quantity = get_prop it ''quantity'',
                   unit_amount = \<lparr>currency_code = ''USD'', unit_value = v\<rparr>\<rparr>))
    \<and> (\<forall>e. build_collect cart = Inl e \<longrightarrow> createOrder env cart w = (Inl (create_rethrow e), w))
    \<and> (\<forall>c. build_collect cart = Inr c \<longrightarrow>
          snd (createOrder env cart w) = issue (OrdersCreate c) w)"
  using validateCartData_passes [OF assms] build_collect_numeric_total [OF assms(1,3)]
    item_entry_present createOrder_valid [of env cart w]
  by blast

theorem validateCartData_ignores_items_witness:
  "validateCartData sample_env junk_cart = Inr ()
   \<and> createOrder sample_env junk_cart empty_world =
       (Inl (cannot_read ''undefined'' ''toFixed''), empty_world)"
proof -
  have t: "get_prop junk_cart ''total'' = JNum (Fin 5)" "num_gt_zero (Fin 5)"
    and i: "get_prop junk_cart ''items'' = JArr [JObj [(''quantity'', JNum (Fin (- 1)))]]"
      "[JObj [(''quantity'', JNum (Fin (- 1)))]] \<noteq> []"
    by (simp_all add: junk_cart_def)
  have "create_rethrow (cannot_read ''undefined'' ''toFixed'') = cannot_read ''undefined'' ''toFixed''"
    by (simp add: create_rethrow_def cannot_read_def)
  then show ?thesis
    using validateCartData_ignores_items [OF t i, of sample_env empty_world]
    by (simp add: item_entry_def)
qed

text \<open>
  C9, as stated: for every valid cart the request carries the total and each unit price
  with exactly two decimal places. It does not. A cart with a total of \<open>10^21\<close> passes the
  validator and its request carries the total in exponent notation; a cart with an item
  without a price passes the validator too, and \<open>createOrder\<close> throws before it has a
  request to send.
\<close>

theorem createOrder_request_counterexample:
  "validateCartData sample_env big_cart = Inr ()
   \<and> build_collect big_cart =
       Inr \<lparr>collect_body =
              \<lparr>intent = ''CAPTURE'',
               purchaseUnits =
                 [\<lparr>amount = \<lparr>currencyCode = ''USD'', amount_value = ExponentText (10 ^ 21)\<rparr>,
                   items = [\<lparr>name = JStr ''A'', quantity = JNum (Fin 2),
                             unit_amount = \<lparr>currency_code = ''USD'', unit_value = Text ''3.00''\<rparr>\<rparr>]\<rparr>]\<rparr>,
            create_prefer = ''return=minimal''\<rparr>
   \<and> \<not> two_decimals (ExponentText (10 ^ 21))
   \<and> validateCartData sample_env unpriced_cart = Inr ()
   \<and> createOrder sample_env unpriced_cart empty_world =
       (Inl (cannot_read ''undefined'' ''toFixed''), empty_world)"
proof -
  have 1: "validateCartData sample_env big_cart = Inr ()"
    by (simp add: validateCartData_def big_cart_def le_zero_def)
  have 2: "build_collect big_cart =
       Inr \<lparr>collect_body =
              \<lparr>intent = ''CAPTURE'',
               purchaseUnits =
                 [\<lparr>amount = \<lparr>currencyCode = ''USD'', amount_value = ExponentText (10 ^ 21)\<rparr>,
                   items = [\<lparr>name = JStr ''A'', quantity = JNum (Fin 2),
                             unit_amount = \<lparr>currency_code = ''USD'', unit_value = Text ''3.00''\<rparr>\<rparr>]\<rparr>]\<rparr>,
            create_prefer = ''return=minimal''\<rparr>"
    by (simp add: build_collect_def big_cart_def item_entry_def item_A_def toFixed2_3
        del: toFixed2.simps) simp
  have 3: "validateCartData sample_env unpriced_cart = Inr ()"
    by (simp add: validateCartData_def unpriced_cart_def le_zero_def)
  have 4: "build_collect unpriced_cart = Inl (cannot_read ''undefined'' ''toFixed'')"
    by (simp add: build_collect_def unpriced_cart_def item_entry_def)
  have 5: "createOrder sample_env unpriced_cart empty_world =
       (Inl (cannot_read ''undefined'' ''toFixed''), empty_world)"
    by (simp add: createOrder_def 3 4 create_rethrow_def cannot_read_def)
  show ?thesis
    using 1 2 3 5 by simp
qed

text \<open>
  C9, amended: for every cart that passes the validator, whose total is a number of a
  magnitude below \<open>10^21\<close> and whose items are present and have such a number for price,
  \<open>createOrder\<close> sends one request, which carries the currency \<open>USD\<close>, the total
  formatted by \<open>toFixed(2)\<close> with exactly two decimal places, and for each item, in
  order, its name, its quantity and its unit price with exactly two decimal places.
\<close>

theorem createOrder_request_two_decimals:
  assumes "validateCartData env cart = Inr ()"
    and "get_prop cart ''total'' = JNum (Fin q)" "\<bar>q\<bar> < 10 ^ 21"
    and "get_prop cart ''items'' = JArr its" "list_all priced its"
  shows "\<exists>es.
      build_collect cart =
        Inr \<lparr>collect_body =
               \<lparr>intent = ''CAPTURE'',
                purchaseUnits =
                  [\<lparr>amount = \<lparr>currencyCode = ''USD'', amount_value = toFixed2 (Fin q)\<rparr>,
                    items = es\<rparr>]\<rparr>,
             create_prefer = ''return=minimal''\<rparr>
      \<and> calls (snd (createOrder env cart w)) =
          calls w @ [OrdersCreate
            \<lparr>collect_body =
               \<lparr>intent = ''CAPTURE'',
                purchaseUnits =
                  [\<lparr>amount = \<lparr>currencyCode = ''USD'', amount_value = toFixed2 (Fin q)\<rparr>,
                    items = es\<rparr>]\<rparr>,
             create_prefer = ''return=minimal''\<rparr>]
      \<and> two_decimals (toFixed2 (Fin q))
      \<and> list_all2 entry_matches its es"
proof -
  obtain es where es: "mapE item_entry its = Inr es" "list_all2 entry_matches its es"
    using mapE_item_entry [OF assms(5)] by blast
  define c where "c =
    \<lparr>collect_body =
       \<lparr>intent = ''CAPTURE'',
        purchaseUnits =
          [\<lparr>amount = \<lparr>currencyCode = ''USD'', amount_value = toFixed2 (Fin q)\<rparr>, items = es\<rparr>]\<rparr>,
     create_prefer = ''return=minimal''\<rparr>"
  have b: "build_collect cart = Inr c"
    using build_collect_numeric_total [OF assms(2,4)] es(1) by (simp add: c_def)
  have "snd (createOrder env cart w) = issue (OrdersCreate c) w"
    using createOrder_valid [OF assms(1), of w] b by blast
  then have s: "calls (snd (createOrder env cart w)) = calls w @ [OrdersCreate c]"
    by simp
  show ?thesis
    using b s toFixed2_two_decimals [OF assms(3)] es(2) unfolding c_def by blast
qed

theorem createOrder_request_two_decimals_witness:
  "validateCartData sample_env six_cart = Inr ()
   \<and> calls (snd (createOrder sample_env six_cart empty_world)) = [OrdersCreate six_collect]
   \<and> two_decimals (Text ''6.00'')"
proof -
  have t: "get_prop six_cart ''total'' = JNum (Fin 6)" "\<bar>6::rat\<bar> < 10 ^ 21"
    and i: "get_prop six_cart ''items'' = JArr [item_A]" "list_all priced [item_A]"
    by (simp_all add: six_cart_def priced_def item_A_def absent_def)
  show ?thesis
    using createOrder_request_two_decimals
      [OF validateCartData_six t i, of sample_env empty_world]
      validateCartData_six [of sample_env] build_collect_six
    by (auto simp: empty_world_def six_collect_def toFixed2_6 simp del: toFixed2.simps)
qed

text \<open>
  C5. In the gateway flow, a failure of the call to the authority is terminal: \<open>createOrder\<close>
  throws after that one call, with the message of an \<open>ApiError\<close> prefixed by
  \<open>PayPal API Error\<close> and any other exception as it is, and the route answers 500 with
  the error \<open>Failed to create order\<close> and that message as details. Whatever the outcome,
  \<open>createOrder\<close> and the route leave the table of orders and its counter as they were.
\<close>

theorem createOrder_gateway_failure:
  "(validateCartData env cart = Inr () \<and> build_collect cart = Inr c \<and> ordersCreate env c = Inl e
      \<longrightarrow> createOrder env cart w = (Inl (create_rethrow e), issue (OrdersCreate c) w)
        \<and> message (create_rethrow e) =
            (case e of ApiError m \<Rightarrow> ''PayPal API Error: '' @ m | _ \<Rightarrow> message e)
        \<and> (destructure ''req.body'' (body rq) ''cart'' = Inr cart \<longrightarrow>
             post_orders env rq w =
               (error_details 500 ''Failed to create order'' (message (create_rethrow e)),
                issue (OrdersCreate c) w)))
   \<and> orders (snd (createOrder env cart w)) = orders w
   \<and> auto_increment (snd (createOrder env cart w)) = auto_increment w
   \<and> orders (snd (post_orders env rq w)) = orders w
   \<and> auto_increment (snd (post_orders env rq w)) = auto_increment w"
proof -
  have "createOrder env cart w = (Inl (create_rethrow e), issue (OrdersCreate c) w)
        \<and> message (create_rethrow e) =
            (case e of ApiError m \<Rightarrow> ''PayPal API Error: '' @ m | _ \<Rightarrow> message e)
        \<and> (destructure ''req.body'' (body rq) ''cart'' = Inr cart \<longrightarrow>
             post_orders env rq w =
               (error_details 500 ''Failed to create order'' (message (create_rethrow e)),
                issue (OrdersCreate c) w))"
    if a: "validateCartData env cart = Inr ()" "build_collect cart = Inr c"
      "ordersCreate env c = Inl e"
  proof -
    have 1: "createOrder env cart w = (Inl (create_rethrow e), issue (OrdersCreate c) w)"
      using a by (rule createOrder_gateway_throws)
    have 2: "message (create_rethrow e) =
            (case e of ApiError m \<Rightarrow> ''PayPal API Error: '' @ m | _ \<Rightarrow> message e)"
      by (cases e) (simp_all add: create_rethrow_def)
    have 3: "truthy cart"
      using a(1) by (rule validateCartData_truthy)
    show ?thesis
      using 1 2 3 by (simp add: post_orders_def)
  qed
  then show ?thesis
    using createOrder_frame [of env cart w] post_orders_frame [of env rq w] by blast
qed

theorem createOrder_gateway_failure_witness:
  "post_orders gateway_down \<lparr>params = JObj [], body = JObj [(''cart'', six_cart)]\<rparr> empty_world =
     (error_details 500 ''Failed to create order'' ''PayPal API Error: INTERNAL_SERVER_ERROR'',
      issue (OrdersCreate six_collect) empty_world)
   \<and> orders (issue (OrdersCreate six_collect) empty_world) = []"
proof -
  have g: "ordersCreate gateway_down six_collect = Inl (ApiError ''INTERNAL_SERVER_ERROR'')"
    by (simp add: gateway_down_def)
  have r: "destructure ''req.body'' (body \<lparr>params = JObj [], body = JObj [(''cart'', six_cart)]\<rparr>)
             ''cart'' = Inr six_cart"
    by simp
  show ?thesis
    using createOrder_gateway_failure [of gateway_down six_cart six_collect
        "ApiError ''INTERNAL_SERVER_ERROR''" empty_world
        "\<lparr>params = JObj [], body = JObj [(''cart'', six_cart)]\<rparr>"]
      validateCartData_six [of gateway_down] build_collect_six g r
    by (simp add: empty_world_def)
qed

section \<open>Properties of the store-first flow\<close>

text \<open>
  C1, as stated: when the notification fails after the record was stored, \<open>placeOrder\<close>
  still answers 201 with the order identifier. It does not: with a mailer that fails, the
  record is stored and the answer is 500, with an error and its details and no identifier.
\<close>

theorem placeOrder_notification_failure_counterexample:
  "placeOrder mail_down \<lparr>params = JObj [], body = order_body\<rparr> empty_world =
     (Reply 500 (Json (JObj [(''error'', JStr notification_failed),
                             (''details'', JStr ''Connection timeout'')])),
      \<lparr>orders = [(1, order_record)], auto_increment = 2,
       calls = [Query (InsertOrder order_record), Mail order_mail]\<rparr>)"
proof -
  have "query_fault mail_down (InsertOrder (record_of order_body)) = NoFault"
    by (simp add: mail_down_def sample_env_def)
  then have "placeOrder mail_down \<lparr>params = JObj [], body = order_body\<rparr> empty_world =
     notify mail_down (get_prop order_body ''user'') (get_prop order_body ''cartItems'')
       (get_prop order_body ''totalAmount'') (auto_increment empty_world)
       (stored (record_of order_body) empty_world)"
    using placeOrder_stored [of "\<lparr>params = JObj [], body = order_body\<rparr>" mail_down empty_world]
      order_body_facts(1,2) by simp
  then show ?thesis
    by (simp add: notify_eq order_body_facts mail_down_def error_details_def stored_def
        empty_world_def issue_def)
qed

text \<open>
  C1, amended: when the notification fails after the record was stored, \<open>placeOrder\<close>
  answers 500 with the error that the order was created and the notification failed
  (\<open>notification_failed\<close>) and the message of the mailer's exception as details; the
  answer has no order identifier, and the record stays in the table.
\<close>

theorem placeOrder_notification_failure:
  assumes "\<not> absent (body rq)" "complete (body rq)"
    and "query_fault env (InsertOrder (record_of (body rq))) = NoFault"
    and "order_details (get_prop (body rq) ''user'') (get_prop (body rq) ''cartItems'')
           (get_prop (body rq) ''totalAmount'') = Inr d"
    and "SendOrderNotification env d = Some e"
  shows "placeOrder env rq w =
     (Reply 500 (Json (JObj [(''error'', JStr notification_failed),
                             (''details'', JStr (message e))])),
      issue (Mail d) (stored (record_of (body rq)) w))
    \<and> get_prop (JObj [(''error'', JStr notification_failed), (''details'', JStr (message e))])
         ''orderId'' = JUndefined
    \<and> orders (snd (placeOrder env rq w)) = orders w @ [(auto_increment w, record_of (body rq))]"
  using placeOrder_stored [OF assms(1-3), of w] assms(4,5)
  by (simp add: notify_eq error_details_def)

theorem placeOrder_notification_failure_witness:
  "placeOrder mail_down \<lparr>params = JObj [], body = order_body\<rparr> empty_world =
     (Reply 500 (Json (JObj [(''error'', JStr notification_failed),
                             (''details'', JStr ''Connection timeout'')])),
      issue (Mail order_mail) (stored order_record empty_world))
   \<and> orders (snd (placeOrder mail_down \<lparr>params = JObj [], body = order_body\<rparr> empty_world))
       = [(1, order_record)]"
proof -
  have q: "query_fault mail_down (InsertOrder (record_of order_body)) = NoFault"
    and m: "SendOrderNotification mail_down order_mail = Some (Error ''Connection timeout'')"
    by (simp_all add: mail_down_def sample_env_def)
  show ?thesis
    using placeOrder_notification_failure
      [of "\<lparr>params = JObj [], body = order_body\<rparr>" mail_down order_mail
        "Error ''Connection timeout''" empty_world]
      order_body_facts q m
    by (simp add: empty_world_def)
qed

text \<open>
  C2, as stated: no order is ever stored with a total \<open>\<le> 0\<close> or an empty item
  snapshot. One is: \<open>placeOrder\<close> stores an order of no item for \<open>-5\<close>, and answers 201.
\<close>

theorem placeOrder_negative_counterexample:
  "placeOrder sample_env \<lparr>params = JObj [], body = negative_body\<rparr> empty_world =
     (Reply 201 (Json (JObj [(''message'', JStr order_created), (''orderId'', JNum (Fin 1))])),
      \<lparr>orders = [(1, negative_record)], auto_increment = 2,
       calls = [Query (InsertOrder negative_record),
                Mail \<lparr>clientName = JStr ''Ada'', productName = [],
                      detail_totalAmount = JNum (Fin (- 5)),
                      lieu = (JStr ''Akwa'', JStr ''Douala''),
                      detail_phoneNumber = JStr ''600000000''\<rparr>]\<rparr>)
   \<and> row_violates_spec (1, negative_record)"
proof -
  have f: "\<not> absent negative_body" "complete negative_body"
    "record_of negative_body = negative_record"
    by (simp_all add: negative_body_def absent_def complete_def customer_def isArray_def
        record_of_def negative_record_def)
  have d: "order_details (get_prop negative_body ''user'') (get_prop negative_body ''cartItems'')
       (get_prop negative_body ''totalAmount'') =
     Inr \<lparr>clientName = JStr ''Ada'', productName = [], detail_totalAmount = JNum (Fin (- 5)),
          lieu = (JStr ''Akwa'', JStr ''Douala''), detail_phoneNumber = JStr ''600000000''\<rparr>"
    by (simp add: negative_body_def customer_def order_details_def)
  have q: "query_fault sample_env (InsertOrder (record_of negative_body)) = NoFault"
    "SendOrderNotification sample_env m = None" for m
    by (simp_all add: sample_env_def)
  have v: "row_violates_spec (1, negative_record)"
    by (simp add: row_violates_spec_def negative_record_def)
  have "placeOrder sample_env \<lparr>params = JObj [], body = negative_body\<rparr> empty_world =
     notify sample_env (get_prop negative_body ''user'') (get_prop negative_body ''cartItems'')
       (get_prop negative_body ''totalAmount'') (auto_increment empty_world)
       (stored (record_of negative_body) empty_world)"
    using placeOrder_stored [of "\<lparr>params = JObj [], body = negative_body\<rparr>" sample_env empty_world]
      f q by simp
  then show ?thesis
    using v by (simp add: f d q notify_eq created_def stored_def empty_world_def issue_def)
qed

text \<open>
  C2, amended: on every request path, no order is ever stored with a total that is not
  truthy (absent, \<open>null\<close>, \<open>false\<close>, \<open>0\<close>, \<open>NaN\<close> or the empty string) or with items
  that are not an array. When every record of the table has a truthy total and an array
  for items, so has every record after any request; and \<open>placeOrder\<close> answers 400 to a
  body whose total is not truthy or whose items are not an array, and leaves the world as
  it was: it has issued no query and no call.
\<close>

theorem handle_keeps_rows_present:
  "(list_all row_present (orders w) \<longrightarrow> list_all row_present (orders (snd (handle env r w))))
   \<and> (\<not> absent (body rq)
        \<and> (\<not> truthy (get_prop (body rq) ''totalAmount'') \<or> \<not> isArray (get_prop (body rq) ''cartItems''))
      \<longrightarrow> placeOrder env rq w = (error_reply 400 incomplete_order, w))"
proof -
  have "placeOrder env rq w = (error_reply 400 incomplete_order, w)"
    if "\<not> absent (body rq)"
      "\<not> truthy (get_prop (body rq) ''totalAmount'') \<or> \<not> isArray (get_prop (body rq) ''cartItems'')"
    using that placeOrder_incomplete [of rq env w] by (auto simp: complete_def)
  then show ?thesis
    using handle_rows_present [of w env r] by blast
qed

theorem handle_keeps_rows_present_witness:
  "list_all row_present (orders captured_world)
   \<and> list_all row_present
       (orders (snd (handle sample_env (PlaceOrder \<lparr>params = JObj [], body = order_body\<rparr>)
          captured_world)))
   \<and> placeOrder sample_env \<lparr>params = JObj [], body = JObj [(''user'', customer),
         (''cartItems'', JArr [item_A]), (''totalAmount'', JNum (Fin 0)),
         (''paymentMethod'', JStr ''cash'')]\<rparr> captured_world
       = (error_reply 400 incomplete_order, captured_world)"
proof -
  have 1: "list_all row_present (orders captured_world)"
    by (simp add: captured_world_def row_present_def order_record_def isArray_def)
  have 2: "\<not> absent (body \<lparr>params = JObj [], body = JObj [(''user'', customer),
         (''cartItems'', JArr [item_A]), (''totalAmount'', JNum (Fin 0)),
         (''paymentMethod'', JStr ''cash'')]\<rparr>)"
    "\<not> truthy (get_prop (body \<lparr>params = JObj [], body = JObj [(''user'', customer),
         (''cartItems'', JArr [item_A]), (''totalAmount'', JNum (Fin 0)),
         (''paymentMethod'', JStr ''cash'')]\<rparr>) ''totalAmount'')"
    by (simp_all add: absent_def)
  show ?thesis
    using handle_keeps_rows_present [of captured_world sample_env
        "PlaceOrder \<lparr>params = JObj [], body = order_body\<rparr>"
        "\<lparr>params = JObj [], body = JObj [(''user'', customer),
         (''cartItems'', JArr [item_A]), (''totalAmount'', JNum (Fin 0)),
         (''paymentMethod'', JStr ''cash'')]\<rparr>"] 1 2
    by blast
qed

text \<open>
  C6. \<open>placeOrder\<close> calls the mailer only once the \<open>INSERT\<close> has succeeded and the record
  is in the table: the query precedes the mail in the calls it issues. When it answers
  that the notification failed, the table is the former one with the new record, and the
  \<open>INSERT\<close> is the only query it issued: nothing is deleted or written again.
\<close>

theorem placeOrder_notifies_after_storing:
  "(Mail d \<in> set (new_calls w (snd (placeOrder env rq w))) \<longrightarrow>
      (\<exists>v. new_calls w (snd (placeOrder env rq w)) = [Query (InsertOrder v), Mail d]
          \<and> query_fault env (InsertOrder v) = NoFault
          \<and> orders (snd (placeOrder env rq w)) = orders w @ [(auto_increment w, v)]))
   \<and> (fst (placeOrder env rq w) = error_details 500 notification_failed m \<longrightarrow>
      (\<exists>v. orders (snd (placeOrder env rq w)) = orders w @ [(auto_increment w, v)]
          \<and> (\<forall>q. Query q \<in> set (new_calls w (snd (placeOrder env rq w))) \<longrightarrow> q = InsertOrder v)))"
  by (cases rule: placeOrder_outcomes [of env rq w]) (auto simp: new_calls_def)

theorem placeOrder_notifies_after_storing_witness:
  "Mail order_mail \<in> set (new_calls empty_world
       (snd (placeOrder mail_down \<lparr>params = JObj [], body = order_body\<rparr> empty_world)))
   \<and> fst (placeOrder mail_down \<lparr>params = JObj [], body = order_body\<rparr> empty_world) =
       error_details 500 notification_failed ''Connection timeout''
   \<and> new_calls empty_world
       (snd (placeOrder mail_down \<lparr>params = JObj [], body = order_body\<rparr> empty_world))
       = [Query (InsertOrder order_record), Mail order_mail]
   \<and> orders (snd (placeOrder mail_down \<lparr>params = JObj [], body = order_body\<rparr> empty_world))
       = [(1, order_record)]"
proof -
  have q: "query_fault mail_down (InsertOrder (record_of order_body)) = NoFault"
    by (simp add: mail_down_def sample_env_def)
  have p: "placeOrder mail_down \<lparr>params = JObj [], body = order_body\<rparr> empty_world =
     (error_details 500 notification_failed ''Connection timeout'',
      issue (Mail order_mail) (stored order_record empty_world))"
    using placeOrder_stored [of "\<lparr>params = JObj [], body = order_body\<rparr>" mail_down empty_world]
      order_body_facts q
    by (simp add: notify_eq mail_down_def)
  have n: "new_calls empty_world (issue (Mail order_mail) (stored order_record empty_world))
      = [Query (InsertOrder order_record), Mail order_mail]"
    by (simp add: new_calls_def empty_world_def)
  show ?thesis
    using placeOrder_notifies_after_storing
      [of order_mail empty_world mail_down "\<lparr>params = JObj [], body = order_body\<rparr>"
        "''Connection timeout''"] p n
    by (simp add: empty_world_def)
qed

text \<open>
  C7. With an id and a status in the request and a query that runs, \<open>updateOrder\<close>
  answers 404 when the store selects no record for the id (zero affected rows), and the
  table and its counter are as they were; when it selects some, it answers 200 with the
  status, and every selected record has that status, whatever it had before.
\<close>

theorem updateOrder_not_found_or_overwrites:
  assumes "destructure ''req.params'' (params rq) ''id'' = Inr i" "destructure ''req.body'' (body rq) ''orderStatus'' = Inr st"
    and "truthy i" "truthy st" "query_fault env (UpdateStatus st i) = NoFault"
  shows "((\<forall>r \<in> set (orders w). \<not> id_eq env (fst r) i) \<longrightarrow>
            fst (updateOrder env rq w) = error_reply 404 ''Order not found''
            \<and> orders (snd (updateOrder env rq w)) = orders w
            \<and> auto_increment (snd (updateOrder env rq w)) = auto_increment w)
       \<and> ((\<exists>r \<in> set (orders w). id_eq env (fst r) i) \<longrightarrow>
            fst (updateOrder env rq w) =
              Reply 200 (Json (JObj [(''message'', JStr ''Order updated successfully''),
                                     (''updatedStatus'', st)]))
            \<and> orders (snd (updateOrder env rq w)) =
                map (\<lambda>r. if id_eq env (fst r) i then (fst r, (snd r)\<lparr>order_status := st\<rparr>) else r)
                  (orders w)
            \<and> (\<forall>r \<in> set (orders (snd (updateOrder env rq w))).
                  id_eq env (fst r) i \<longrightarrow> order_status (snd r) = st))"
proof -
  note u = updateOrder_runs [OF assms, of w]
  have a: "db_select env i w = []" if "\<forall>r \<in> set (orders w). \<not> id_eq env (fst r) i"
    using that by (auto simp: db_select_def filter_empty_conv)
  have b: "db_select env i w \<noteq> []" if "\<exists>r \<in> set (orders w). id_eq env (fst r) i"
    using that by (auto simp: db_select_def filter_empty_conv)
  have m: "map (overwrite env st i) (orders w) =
      map (\<lambda>r. if id_eq env (fst r) i then (fst r, (snd r)\<lparr>order_status := st\<rparr>) else r) (orders w)"
    by (simp add: overwrite_def)
  show ?thesis
    using u a b overwrite_none [of "orders w" env i st] m
    by (auto simp: overwrite_def)
qed

theorem updateOrder_not_found_or_overwrites_witness:
  "updateOrder sample_env (update_req ''7'' ''pending'') captured_world =
     (error_reply 404 ''Order not found'',
      captured_world\<lparr>calls := [Query (UpdateStatus (JStr ''pending'') (JStr ''7''))]\<rparr>)
   \<and> orders (snd (updateOrder sample_env (update_req ''1'' ''pending'') captured_world)) =
       [(1, order_record)]"
proof -
  have h: "destructure ''req.params'' (params (update_req i st)) ''id'' = Inr (JStr i)"
    "destructure ''req.body'' (body (update_req i st)) ''orderStatus'' = Inr (JStr st)" for i st
    by (simp_all add: update_req_def)
  have t: "truthy (JStr ''7'')" "truthy (JStr ''1'')" "truthy (JStr ''pending'')"
    by simp_all
  have q: "query_fault sample_env q = NoFault" for q
    by (simp add: sample_env_def)
  have n: "\<forall>r \<in> set (orders captured_world). \<not> id_eq sample_env (fst r) (JStr ''7'')"
    by (simp add: captured_world_def sample_env_def)
  have y: "\<exists>r \<in> set (orders captured_world). id_eq sample_env (fst r) (JStr ''1'')"
    by (simp add: captured_world_def sample_env_def)
  have 1: "updateOrder sample_env (update_req ''7'' ''pending'') captured_world =
     (error_reply 404 ''Order not found'',
      captured_world\<lparr>calls := [Query (UpdateStatus (JStr ''pending'') (JStr ''7''))]\<rparr>)"
    using updateOrder_runs [OF h t(1,3) q, of captured_world]
    by (simp add: db_select_def captured_world_def sample_env_def overwrite_def issue_def)
  have 2: "orders (snd (updateOrder sample_env (update_req ''1'' ''pending'') captured_world)) =
       [(1, order_record)]"
    using updateOrder_not_found_or_overwrites [OF h t(2,3) q, of captured_world] y
    by (simp add: captured_world_def sample_env_def order_record_def)
  show ?thesis
    using 1 2 updateOrder_not_found_or_overwrites [OF h t(1,3) q, of captured_world] n
    by simp
qed

text \<open>
  C8. When \<open>placeOrder\<close> answers 201, the identifier in the answer is the one under which
  exactly one record was added to the table, the only record of that identifier in a
  table whose identifiers are below the counter; the status of the record is \<open>pending\<close>
  when the body has no \<open>order_status\<close>.
\<close>

theorem placeOrder_success_one_record:
  assumes "fst (placeOrder env rq w) = Reply 201 p"
  shows "\<exists>v. p = Json (JObj [(''message'', JStr order_created),
                            (''orderId'', JNum (Fin (of_nat (auto_increment w))))])
      \<and> orders (snd (placeOrder env rq w)) = orders w @ [(auto_increment w, v)]
      \<and> (absent (get_prop (body rq) ''order_status'') \<longrightarrow> order_status v = JStr ''pending'')
      \<and> (ids_below_counter w \<longrightarrow>
           filter (\<lambda>r. fst r = auto_increment w) (orders (snd (placeOrder env rq w)))
             = [(auto_increment w, v)])"
proof (cases rule: placeOrder_outcomes [of env rq w])
  case (sent d)
  have f: "ids_below_counter w \<Longrightarrow> filter (\<lambda>r. fst r = auto_increment w) (orders w) = []"
    by (auto simp: ids_below_counter_def list_all_iff filter_empty_conv)
  have s: "absent (get_prop (body rq) ''order_status'') \<Longrightarrow>
      order_status (record_of (body rq)) = JStr ''pending''"
    by (auto simp: record_of_def absent_def)
  show ?thesis
    using sent(4) assms f s by (auto simp: created_def)
qed (use assms in \<open>auto simp: error_reply_def error_details_def\<close>)

theorem placeOrder_success_one_record_witness:
  "fst (placeOrder sample_env \<lparr>params = JObj [], body = order_body\<rparr> empty_world) =
     Reply 201 (Json (JObj [(''message'', JStr order_created), (''orderId'', JNum (Fin 1))]))
   \<and> orders (snd (placeOrder sample_env \<lparr>params = JObj [], body = order_body\<rparr> empty_world))
       = [(1, order_record)]
   \<and> order_status order_record = JStr ''pending''"
proof -
  have q: "query_fault sample_env (InsertOrder (record_of order_body)) = NoFault"
    by (simp add: sample_env_def)
  have p: "placeOrder sample_env \<lparr>params = JObj [], body = order_body\<rparr> empty_world =
     (created 1, issue (Mail order_mail) (stored order_record empty_world))"
    using placeOrder_stored [of "\<lparr>params = JObj [], body = order_body\<rparr>" sample_env empty_world]
      order_body_facts q
    by (simp add: notify_eq sample_env_def empty_world_def)
  then have "fst (placeOrder sample_env \<lparr>params = JObj [], body = order_body\<rparr> empty_world) =
     Reply 201 (Json (JObj [(''message'', JStr order_created), (''orderId'', JNum (Fin 1))]))"
    by (simp add: created_def)
  from placeOrder_success_one_record [OF this] p show ?thesis
    by (simp add: empty_world_def order_record_def created_def)
qed

end
